theory Spec2Isabelle
  imports Main
begin

section \<open>Values, rows and exceptions\<close>

text \<open>
  A field of a row is a Python string or \<open>None\<close>; the validators test for both
  (\<open>student[1] in (None, '')\<close>). A row is the list the csv reader yields. A character
  stands for one code point below 256.
\<close>

type_synonym cell = "string option"

type_synonym row = "cell list"

datatype error =
  IndexError | AttributeError | TypeError | KeyError | ValueError | InvalidIndexError

text \<open>Sequencing of computations that may raise: the first exception wins.\<close>

definition bind_err :: "error + 'a \<Rightarrow> ('a \<Rightarrow> error + 'b) \<Rightarrow> error + 'b" where
  "bind_err m f = (case m of Inl e \<Rightarrow> Inl e | Inr x \<Rightarrow> f x)"

text \<open>\<open>xs[i]\<close> for a non-negative constant index: IndexError out of range.\<close>

definition get :: "'a list \<Rightarrow> nat \<Rightarrow> error + 'a" where
  "get xs i = (if i < length xs then Inr (xs ! i) else Inl IndexError)"

text \<open>\<open>'{}'.format(x)\<close> and \<open>str(x)\<close> of a field: \<open>None\<close> prints as the word None.\<close>

definition str_cell :: "cell \<Rightarrow> string" where
  "str_cell c = (case c of None \<Rightarrow> ''None'' | Some s \<Rightarrow> s)"

text \<open>\<open>x in (None, '')\<close>.\<close>

definition is_missing :: "cell \<Rightarrow> bool" where
  "is_missing c = (c = None \<or> c = Some [])"

text \<open>
  \<open>str.strip()\<close>: leading and trailing white space removed. The white-space code points
  below 256 are 9 to 13, 28 to 32, 133 and 160.
\<close>

definition is_space :: "char \<Rightarrow> bool" where
  "is_space c = (of_char c \<in> set [9, 10, 11, 12, 13, 28, 29, 30, 31, 32, 133, 160 :: nat])"

definition strip :: "string \<Rightarrow> string" where
  "strip s = rev (dropWhile is_space (rev (dropWhile is_space s)))"

text \<open>\<open>x.strip()\<close> on a field: \<open>None\<close> has no such attribute.\<close>

definition strip_cell :: "cell \<Rightarrow> error + cell" where
  "strip_cell c = (case c of None \<Rightarrow> Inl AttributeError | Some s \<Rightarrow> Inr (Some (strip s)))"

section \<open>Date normalizer\<close>

text \<open>\<open>clean_date\<close>: a string of length 9 gets a leading 0, any other is returned as it is.\<close>

definition clean_date :: "string \<Rightarrow> string" where
  "clean_date date = (if length date = 9 then ''0'' @ date else date)"

text \<open>\<open>len(date)\<close> raises TypeError on \<open>None\<close>.\<close>

definition clean_date_cell :: "cell \<Rightarrow> error + cell" where
  "clean_date_cell c = (case c of None \<Rightarrow> Inl TypeError | Some d \<Rightarrow> Inr (Some (clean_date d)))"

text \<open>Python's slice \<open>s[i:j]\<close> for \<open>0 \<le> i \<le> j\<close>: clamped to the string, never raises.\<close>

definition slice :: "nat \<Rightarrow> nat \<Rightarrow> 'a list \<Rightarrow> 'a list" where
  "slice i j s = take (j - i) (drop i s)"

text \<open>
  \<open>clean_date_2\<close>: the argument of the model is \<open>str_date = str(date)\<close>, the string form
  of the value passed in.
\<close>

definition clean_date_2 :: "string \<Rightarrow> string" where
  "clean_date_2 str_date =
     (let day = slice 8 10 str_date;
          month = slice 5 7 str_date;
          year = slice 0 4 str_date
      in day @ ''/'' @ month @ ''/'' @ year)"

subsection \<open>Date shapes named by the specification\<close>

definition is_digit :: "char \<Rightarrow> bool" where
  "is_digit c = (c \<in> set ''0123456789'')"

text \<open>\<open>DD/MM/YYYY\<close>: ten characters, two-digit day and month, four-digit year.\<close>

definition is_ddmmyyyy :: "string \<Rightarrow> bool" where
  "is_ddmmyyyy s =
     (length s = 10 \<and> is_digit (s ! 0) \<and> is_digit (s ! 1) \<and> s ! 2 = CHR ''/'' \<and>
      is_digit (s ! 3) \<and> is_digit (s ! 4) \<and> s ! 5 = CHR ''/'' \<and>
      is_digit (s ! 6) \<and> is_digit (s ! 7) \<and> is_digit (s ! 8) \<and> is_digit (s ! 9))"

text \<open>\<open>D/MM/YYYY\<close>: nine characters, the day lacks its leading zero.\<close>

definition is_dmmyyyy :: "string \<Rightarrow> bool" where
  "is_dmmyyyy s =
     (length s = 9 \<and> is_digit (s ! 0) \<and> s ! 1 = CHR ''/'' \<and>
      is_digit (s ! 2) \<and> is_digit (s ! 3) \<and> s ! 4 = CHR ''/'' \<and>
      is_digit (s ! 5) \<and> is_digit (s ! 6) \<and> is_digit (s ! 7) \<and> is_digit (s ! 8))"

text \<open>A string form that begins \<open>YYYY-MM-DD\<close>.\<close>

definition is_iso_prefix :: "string \<Rightarrow> bool" where
  "is_iso_prefix s =
     (10 \<le> length s \<and> is_digit (s ! 0) \<and> is_digit (s ! 1) \<and> is_digit (s ! 2) \<and>
      is_digit (s ! 3) \<and> s ! 4 = CHR ''-'' \<and> is_digit (s ! 5) \<and> is_digit (s ! 6) \<and>
      s ! 7 = CHR ''-'' \<and> is_digit (s ! 8) \<and> is_digit (s ! 9))"

section \<open>Record validator\<close>

text \<open>
  What a validator does: the call of the error-log sink \<open>ft.process_error_log(errors, label)\<close>
  if it is made, and the pair it returns.
\<close>

record check_result =
  error_log :: "(string list \<times> string) option"
  has_warnings :: bool
  warnings :: "string list"

text \<open>\<open>'... {}'.format(student[0])\<close>.\<close>

definition missing_msg :: "string \<Rightarrow> row \<Rightarrow> error + string" where
  "missing_msg txt student = bind_err (get student 0) (\<lambda>sid. Inr (txt @ str_cell sid))"

text \<open>\<open>if student[i] in (None, ''): acc.append(txt.format(student[0]))\<close>.\<close>

definition append_if_missing :: "nat \<Rightarrow> string \<Rightarrow> row \<Rightarrow> string list \<Rightarrow> error + string list" where
  "append_if_missing i txt student acc =
     bind_err (get student i) (\<lambda>f.
       if is_missing f then bind_err (missing_msg txt student) (\<lambda>m. Inr (acc @ [m]))
       else Inr acc)"

definition edsd_header :: string where
  "edsd_header = CHR 0x0A # ''Enrolment Dates (Student Database) Report Warnings:'' @ [CHR 0x0A]"

definition edlp_header :: string where
  "edlp_header = CHR 0x0A # ''Enrolment Dates (Learning Platform) Report Warnings:'' @ [CHR 0x0A]"

definition edsd_label :: string where
  "edsd_label = ''Enrolment Dates (Student Database) Report''"

definition edlp_label :: string where
  "edlp_label = ''Enrolment Dates (Learning Platform) Report''"

definition course_code_txt :: string where
  "course_code_txt = ''Course code is missing for student with Student ID ''"

definition tutor_txt :: string where
  "tutor_txt = ''Tutor is missing for student with Student ID ''"

definition enrolment_txt :: string where
  "enrolment_txt = ''Enrolment Date is missing for student with Student ID ''"

definition expiry_txt :: string where
  "expiry_txt = ''Expiry Date is missing for student with Student ID ''"

definition student_name_txt :: string where
  "student_name_txt = ''Student Name is missing for student with Student ID ''"

definition course_txt :: string where
  "course_txt = ''Course is missing for student with Student ID ''"

text \<open>The body of the loop of \<open>check_edsd\<close> on one row; the state is (errors, warnings).\<close>

definition edsd_student :: "row \<Rightarrow> string list \<times> string list \<Rightarrow> error + (string list \<times> string list)" where
  "edsd_student student acc =
     bind_err (append_if_missing 1 course_code_txt student (fst acc)) (\<lambda>errors1.
     bind_err (append_if_missing 2 tutor_txt student (snd acc)) (\<lambda>warnings1.
     bind_err (append_if_missing 3 enrolment_txt student errors1) (\<lambda>errors2.
     bind_err (append_if_missing 4 expiry_txt student errors2) (\<lambda>errors3.
     Inr (errors3, warnings1)))))"

fun check_edsd_loop :: "row list \<Rightarrow> string list \<times> string list \<Rightarrow> error + (string list \<times> string list)" where
  "check_edsd_loop [] acc = Inr acc"
| "check_edsd_loop (student # rest) acc = bind_err (edsd_student student acc) (check_edsd_loop rest)"

definition check_edsd :: "row list \<Rightarrow> error + check_result" where
  "check_edsd report_data =
     bind_err (check_edsd_loop report_data ([], [edsd_header])) (\<lambda>acc.
       Inr \<lparr>error_log = (if length (fst acc) > 0 then Some (fst acc, edsd_label) else None),
            has_warnings = (length (snd acc) > 1),
            warnings = snd acc\<rparr>)"

text \<open>The body of the loop of \<open>check_edlp\<close> on one row.\<close>

definition edlp_student :: "row \<Rightarrow> string list \<times> string list \<Rightarrow> error + (string list \<times> string list)" where
  "edlp_student student acc =
     bind_err (append_if_missing 1 student_name_txt student (snd acc)) (\<lambda>warnings1.
     bind_err (append_if_missing 2 course_txt student (fst acc)) (\<lambda>errors1.
     bind_err (append_if_missing 3 enrolment_txt student errors1) (\<lambda>errors2.
     bind_err (append_if_missing 4 expiry_txt student errors2) (\<lambda>errors3.
     Inr (errors3, warnings1)))))"

fun check_edlp_loop :: "row list \<Rightarrow> string list \<times> string list \<Rightarrow> error + (string list \<times> string list)" where
  "check_edlp_loop [] acc = Inr acc"
| "check_edlp_loop (student # rest) acc = bind_err (edlp_student student acc) (check_edlp_loop rest)"

definition check_edlp :: "row list \<Rightarrow> error + check_result" where
  "check_edlp report_data =
     bind_err (check_edlp_loop report_data ([], [edlp_header])) (\<lambda>acc.
       Inr \<lparr>error_log = (if length (fst acc) > 0 then Some (fst acc, edlp_label) else None),
            has_warnings = (length (snd acc) > 1),
            warnings = snd acc\<rparr>)"

section \<open>Record cleaner\<close>

text \<open>The body of the loop of \<open>clean_sd_data\<close>: fields 0 and 1 stripped, fields 3 and 4 through \<open>clean_date\<close>.\<close>

definition clean_sd_student :: "row \<Rightarrow> error + row" where
  "clean_sd_student student =
     bind_err (get student 0) (\<lambda>f0. bind_err (strip_cell f0) (\<lambda>c0.
     bind_err (get student 1) (\<lambda>f1. bind_err (strip_cell f1) (\<lambda>c1.
     bind_err (get student 3) (\<lambda>f3. bind_err (clean_date_cell f3) (\<lambda>c3.
     bind_err (get student 4) (\<lambda>f4. bind_err (clean_date_cell f4) (\<lambda>c4.
     Inr [c0, c1, c3, c4]))))))))"

fun clean_sd_loop :: "row list \<Rightarrow> row list \<Rightarrow> error + row list" where
  "clean_sd_loop [] cleaned_data = Inr cleaned_data"
| "clean_sd_loop (student # rest) cleaned_data =
     bind_err (clean_sd_student student) (\<lambda>cleaned_student.
       clean_sd_loop rest (cleaned_data @ [cleaned_student]))"

definition clean_sd_data :: "row list \<Rightarrow> error + row list" where
  "clean_sd_data raw_data = clean_sd_loop raw_data []"

text \<open>\<open>remove_students\<close>: the rows whose field at \<open>location\<close> is not the identifier, in order.\<close>

fun remove_students_loop :: "row list \<Rightarrow> nat \<Rightarrow> cell \<Rightarrow> row list \<Rightarrow> error + row list" where
  "remove_students_loop [] location identifier updated_list = Inr updated_list"
| "remove_students_loop (student # rest) location identifier updated_list =
     bind_err (get student location) (\<lambda>f.
       if f \<noteq> identifier
       then remove_students_loop rest location identifier (updated_list @ [student])
       else remove_students_loop rest location identifier updated_list)"

definition remove_students :: "row list \<Rightarrow> nat \<Rightarrow> cell \<Rightarrow> error + row list" where
  "remove_students students location identifier =
     remove_students_loop students location identifier []"

text \<open>
  \<open>clean_lp_data\<close> calls two functions of the package custtools, which is not part of this
  repository: \<open>db.extract_course_code\<close> and \<open>da.clean_date\<close>. Both are parameters of the
  model, each a function that returns a field or raises.
\<close>

definition clean_lp_student ::
  "(cell \<Rightarrow> error + cell) \<Rightarrow> (cell \<Rightarrow> error + cell) \<Rightarrow> row \<Rightarrow> error + row" where
  "clean_lp_student extract_course_code da_clean_date student =
     bind_err (get student 0) (\<lambda>f0. bind_err (strip_cell f0) (\<lambda>c0.
     bind_err (get student 1) (\<lambda>f1. bind_err (strip_cell f1) (\<lambda>c1.
     bind_err (get student 2) (\<lambda>f2. bind_err (extract_course_code f2) (\<lambda>code.
     bind_err (strip_cell code) (\<lambda>c2.
     bind_err (get student 3) (\<lambda>f3. bind_err (da_clean_date f3) (\<lambda>c3.
     bind_err (get student 4) (\<lambda>f4. bind_err (da_clean_date f4) (\<lambda>c4.
     Inr [c0, c1, c2, c3, c4])))))))))))"

fun clean_lp_loop ::
  "(cell \<Rightarrow> error + cell) \<Rightarrow> (cell \<Rightarrow> error + cell) \<Rightarrow> row list \<Rightarrow> row list \<Rightarrow> error + row list" where
  "clean_lp_loop extract_course_code da_clean_date [] cleaned_data = Inr cleaned_data"
| "clean_lp_loop extract_course_code da_clean_date (student # rest) cleaned_data =
     bind_err (clean_lp_student extract_course_code da_clean_date student) (\<lambda>cleaned_student.
       clean_lp_loop extract_course_code da_clean_date rest (cleaned_data @ [cleaned_student]))"

definition clean_lp_data ::
  "(cell \<Rightarrow> error + cell) \<Rightarrow> (cell \<Rightarrow> error + cell) \<Rightarrow> row list \<Rightarrow> error + row list" where
  "clean_lp_data extract_course_code da_clean_date raw_data =
     bind_err (clean_lp_loop extract_course_code da_clean_date raw_data []) (\<lambda>cleaned_data.
       remove_students cleaned_data 2 (Some ''Skip''))"

text \<open>
  Modelled from the spec: \<open>da.clean_date\<close> of the package custtools, which is not in this
  repository. The specification gives the date normalization of the Source B cleaner as
  \<open>formatFromTimestamp\<close> applied to fields 3 and 4, the operation \<open>clean_date_2\<close> applied
  to the string form of the field.
\<close>

definition format_from_timestamp :: "cell \<Rightarrow> error + cell" where
  "format_from_timestamp c = Inr (Some (clean_date_2 (str_cell c)))"

section \<open>Reconciliation engine\<close>

text \<open>
  A value held in a DataFrame: a Python string, Python's \<open>None\<close>, or the float NaN
  that a join fills in where the right table has no row. Both \<open>None\<close> and NaN are null.
\<close>

datatype entry = Text string | PyNone | NaN

definition of_cell :: "cell \<Rightarrow> entry" where
  "of_cell c = (case c of None \<Rightarrow> PyNone | Some s \<Rightarrow> Text s)"

definition is_null :: "entry \<Rightarrow> bool" where
  "is_null e = (e = PyNone \<or> e = NaN)"

text \<open>A DataFrame: the column labels and the rows, each row as wide as the labels.\<close>

record dataframe =
  columns :: "string list"
  records :: "entry list list"

definition wf_df :: "dataframe \<Rightarrow> bool" where
  "wf_df df = list_all (\<lambda>r. length r = length (columns df)) (records df)"

text \<open>\<open>pd.DataFrame(data = rows, columns = headings)\<close> on a list of rows of fields.\<close>

definition DataFrame :: "row list \<Rightarrow> string list \<Rightarrow> dataframe" where
  "DataFrame rows headings = \<lparr>columns = headings, records = map (map of_cell) rows\<rparr>"

fun index_of :: "'a list \<Rightarrow> 'a \<Rightarrow> nat option" where
  "index_of [] x = None"
| "index_of (y # ys) x = (if x = y then Some 0 else map_option Suc (index_of ys x))"

definition drop_at :: "nat \<Rightarrow> 'a list \<Rightarrow> 'a list" where
  "drop_at i xs = take i xs @ drop (Suc i) xs"

text \<open>
  The labels of one side of a join: a label other than the key that the other side has
  too gets the suffix.
\<close>

definition suffix_cols :: "string \<Rightarrow> string list \<Rightarrow> string \<Rightarrow> string list \<Rightarrow> string list" where
  "suffix_cols common other suffix cols =
     map (\<lambda>c. if c \<noteq> common \<and> c \<in> set other then c @ suffix else c) cols"

text \<open>Two keys match when they are equal or both null.\<close>

definition key_eq :: "entry \<Rightarrow> entry \<Rightarrow> bool" where
  "key_eq a b = (a = b \<or> (is_null a \<and> is_null b))"

text \<open>
  The joined rows that one left row gives: one per right row with a matching key, in the
  order of the right table, or one row filled with NaN when there is none.
\<close>

definition join_row :: "nat \<Rightarrow> nat \<Rightarrow> nat \<Rightarrow> entry list list \<Rightarrow> entry list \<Rightarrow> entry list list" where
  "join_row kl kr width rights l =
     (let matches = filter (\<lambda>r. key_eq (r ! kr) (l ! kl)) rights
      in if matches = [] then [l @ replicate width NaN]
         else map (\<lambda>r. l @ drop_at kr r) matches)"

text \<open>
  The position of the key column of one table: KeyError when no column has the label,
  ValueError when more than one has it.
\<close>

definition key_index :: "string list \<Rightarrow> string \<Rightarrow> error + nat" where
  "key_index cols label =
     (case index_of cols label of
        None \<Rightarrow> Inl KeyError
      | Some i \<Rightarrow> if label \<in> set (drop (Suc i) cols) then Inl ValueError else Inr i)"

text \<open>
  Modelled from the spec: \<open>pandas.merge(df_1, df_2, on = common, how = 'left',
  suffixes = ['_1', '_2'])\<close>, a function of the pandas library. Every row of the left table
  appears at least once; without a matching key in the right table the right-hand columns
  hold the null marker NaN; several right rows with the key give one joined row each; a
  column that both sides have is named with \<open>_1\<close> on the left and \<open>_2\<close> on the right.
  The key column appears once, in its place among the left columns. The key is looked up
  in the right table first, then in the left one.
\<close>

definition merge :: "dataframe \<Rightarrow> dataframe \<Rightarrow> string \<Rightarrow> error + dataframe" where
  "merge df_1 df_2 common =
     bind_err (key_index (columns df_2) common) (\<lambda>kr.
     bind_err (key_index (columns df_1) common) (\<lambda>kl.
       Inr \<lparr>columns = suffix_cols common (columns df_2) ''_1'' (columns df_1) @
                       suffix_cols common (columns df_1) ''_2'' (drop_at kr (columns df_2)),
            records = concat (map (join_row kl kr (length (columns df_2) - 1) (records df_2))
                                (records df_1))\<rparr>))"

text \<open>The values of a row under a label, one for each column that carries the label.\<close>

definition select :: "string list \<Rightarrow> entry list \<Rightarrow> string \<Rightarrow> entry list" where
  "select cols r label = map snd (filter (\<lambda>p. fst p = label) (zip cols r))"

text \<open>
  \<open>row[label]\<close>: KeyError when the row has no such label; the value under the label, or
  all the values under it when several columns carry it.
\<close>

definition lookup :: "string list \<Rightarrow> entry list \<Rightarrow> string \<Rightarrow> error + entry list" where
  "lookup cols r label = (if label \<in> set cols then Inr (select cols r label) else Inl KeyError)"

text \<open>
  \<open>row[headings]\<close>: the values under the labels, in the order of the labels; its index is
  \<open>series_index\<close>.
\<close>

fun project :: "string list \<Rightarrow> entry list \<Rightarrow> string list \<Rightarrow> error + entry list" where
  "project cols r [] = Inr []"
| "project cols r (h # hs) =
     bind_err (lookup cols r h) (\<lambda>xs. bind_err (project cols r hs) (\<lambda>ys. Inr (xs @ ys)))"

definition series_index :: "string list \<Rightarrow> string list \<Rightarrow> string list" where
  "series_index cols headings = concat (map (\<lambda>h. filter (\<lambda>c. c = h) cols) headings)"

text \<open>
  \<open>a != b\<close> on two values of a joined row: NaN differs from everything, itself
  included; \<open>None\<close> equals \<open>None\<close> and differs from every string; two strings differ
  when they are not the same string.
\<close>

definition ne_cell :: "entry \<Rightarrow> entry \<Rightarrow> bool" where
  "ne_cell a b = (if a = NaN \<or> b = NaN then True else a \<noteq> b)"

text \<open>
  The loop of \<open>compare_dates\<close> over the joined rows, with the list \<open>differing\<close>. When
  one of the two date labels is carried by several columns, the comparison gives a Series
  and the \<open>if\<close> raises ValueError.
\<close>

fun compare_loop ::
  "string list \<Rightarrow> string \<Rightarrow> string list \<Rightarrow> entry list list \<Rightarrow> entry list list \<Rightarrow>
   error + entry list list" where
  "compare_loop cols col_name headings [] differing = Inr differing"
| "compare_loop cols col_name headings (r # rest) differing =
     bind_err (lookup cols r (col_name @ ''_1'')) (\<lambda>a.
     bind_err (lookup cols r (col_name @ ''_2'')) (\<lambda>b.
       if length a = 1 \<and> length b = 1
       then (if ne_cell (hd a) (hd b)
             then bind_err (project cols r headings) (\<lambda>p.
                    compare_loop cols col_name headings rest (differing @ [p]))
             else compare_loop cols col_name headings rest differing)
       else Inl ValueError))"

text \<open>
  \<open>compare_dates\<close>. The last step, \<open>pd.DataFrame(data = differing, columns = headings)\<close>,
  aligns each collected row with the headings and raises InvalidIndexError when the index
  of a collected row repeats a label; without a collected row it gives the empty table.
\<close>

definition compare_dates ::
  "dataframe \<Rightarrow> dataframe \<Rightarrow> string \<Rightarrow> string \<Rightarrow> string list \<Rightarrow> error + dataframe" where
  "compare_dates df_1 df_2 common col_name headings =
     bind_err (merge df_1 df_2 common) (\<lambda>combined.
     bind_err (compare_loop (columns combined) col_name headings (records combined) []) (\<lambda>differing.
       if differing \<noteq> [] \<and> \<not> distinct (series_index (columns combined) headings)
       then Inl InvalidIndexError
       else Inr \<lparr>columns = headings, records = differing\<rparr>))"

section \<open>Loading and the top-level run\<close>

text \<open>
  \<open>load_data\<close> on the rows that the csv reader yields after the header line (the retry
  over file names is left out). It returns the rows whose first field is present; the field
  \<open>logged\<close> is the call of the error-log sink that the validator made, if any.
\<close>

record load_result =
  read_data :: "row list"
  to_add :: bool
  warnings_to_add :: "string list"
  logged :: "(string list \<times> string) option"

fun read_loop :: "row list \<Rightarrow> row list \<Rightarrow> error + row list" where
  "read_loop [] acc = Inr acc"
| "read_loop (r # rest) acc =
     bind_err (get r 0) (\<lambda>f0.
       if \<not> is_missing f0 then read_loop rest (acc @ [r]) else read_loop rest acc)"

definition load_data :: "row list \<Rightarrow> string \<Rightarrow> error + load_result" where
  "load_data file_rows source =
     (let warnings0 = [] in
      bind_err (read_loop file_rows []) (\<lambda>rows.
      bind_err (if source = ''edlp'' then bind_err (check_edlp rows) (\<lambda>c. Inr (error_log c))
                else if source = ''edsd'' then bind_err (check_edsd rows) (\<lambda>c. Inr (error_log c))
                else Inr None) (\<lambda>lg.
        if length warnings0 > 0
        then Inr \<lparr>read_data = rows, to_add = True, warnings_to_add = warnings0, logged = lg\<rparr>
        else Inr \<lparr>read_data = rows, to_add = False, warnings_to_add = warnings0, logged = lg\<rparr>)))"

text \<open>\<open>df.rename(columns = {old: new})\<close>.\<close>

definition rename :: "(string \<times> string) list \<Rightarrow> dataframe \<Rightarrow> dataframe" where
  "rename m df = df\<lparr>columns := map (\<lambda>c. case map_of m c of None \<Rightarrow> c | Some c' \<Rightarrow> c') (columns df)\<rparr>"

text \<open>
  What a run of \<open>process_enrolment_dates\<close> hands to its collaborators: the error logs of
  the two loads, the two tables written (named by the prefix of the file name), and the
  call of the warning-log sink \<open>ft.process_warning_log(warnings, warnings_to_process)\<close>.
\<close>

record outputs =
  error_logs :: "(string list \<times> string) list"
  exports :: "(string \<times> dataframe) list"
  warning_log :: "string list \<times> bool"

definition run_header :: string where
  "run_header = CHR 0x0A # ''Processing Enrolment Dates data Warnings:'' @ [CHR 0x0A]"

definition process_enrolment_dates ::
  "(cell \<Rightarrow> error + cell) \<Rightarrow> (cell \<Rightarrow> error + cell) \<Rightarrow> row list \<Rightarrow> row list \<Rightarrow> error + outputs" where
  "process_enrolment_dates extract_course_code da_clean_date lp_file sd_file =
     (let run_warnings = [run_header];
          warnings_to_process = False;
          sid_name = ''StudentID''; s_name = ''Student''; c_name = ''Course'';
          sd_name = ''Start Date''; ex_name = ''Expiry Date''
      in
      bind_err (load_data lp_file ''edlp'') (\<lambda>lp_load.
      bind_err (clean_lp_data extract_course_code da_clean_date (read_data lp_load)) (\<lambda>lp_data.
      let lp_df = DataFrame lp_data [sid_name, s_name, c_name, sd_name, ex_name] in
      bind_err (load_data sd_file ''edsd'') (\<lambda>sd_load.
      bind_err (clean_sd_data (read_data sd_load)) (\<lambda>sd_data.
      let sd_df = DataFrame sd_data [sid_name, c_name, sd_name, ex_name] in
      bind_err (compare_dates lp_df sd_df sid_name sd_name
                  [sid_name, s_name, ''Course_1'', ''Start Date_1'', ''Start Date_2'']) (\<lambda>start0.
      let start = rename [(''Start Date_1'', ''Start Date LP''), (''Start Date_2'', ''Start Date SD'')] start0 in
      bind_err (compare_dates lp_df sd_df sid_name ex_name
                  [sid_name, s_name, ''Course_1'', ''Expiry Date_1'', ''Expiry Date_2'']) (\<lambda>expiry0.
      let expiry = rename [(''Expiry Date_1'', ''Expiry Date LP''), (''Expiry Date_2'', ''Expiry Date SD'')] expiry0 in
      Inr \<lparr>error_logs = (case logged lp_load of None \<Rightarrow> [] | Some l \<Rightarrow> [l]) @
                         (case logged sd_load of None \<Rightarrow> [] | Some l \<Rightarrow> [l]),
           exports = [(''Start_Dates_'', start), (''Expiry_Dates_'', expiry)],
           warning_log = (run_warnings, warnings_to_process)\<rparr>)))))))"

section \<open>Descriptions used by the properties\<close>

text \<open>
  The message list that one governed field of one row contributes: the text with the
  student ID when the field is null or empty, nothing otherwise.
\<close>

definition msgs_for :: "nat \<Rightarrow> string \<Rightarrow> row \<Rightarrow> string list" where
  "msgs_for i txt r = (if is_missing (r ! i) then [txt @ str_cell (r ! 0)] else [])"

text \<open>
  A Source A row that \<open>clean_sd_data\<close> can clean (five fields, none of the fields it
  reads is \<open>None\<close>) and the row it then gives.
\<close>

definition sd_cleanable :: "row \<Rightarrow> bool" where
  "sd_cleanable r =
     (5 \<le> length r \<and> r ! 0 \<noteq> None \<and> r ! 1 \<noteq> None \<and> r ! 3 \<noteq> None \<and> r ! 4 \<noteq> None)"

definition sd_cleaned :: "row \<Rightarrow> row" where
  "sd_cleaned r =
     [map_option strip (r ! 0), map_option strip (r ! 1),
      map_option clean_date (r ! 3), map_option clean_date (r ! 4)]"

text \<open>
  A Source B row that \<open>clean_lp_data\<close> can clean: five fields, the first two not
  \<open>None\<close>, the course-code extractor returns a string on field 2 and the date cleaner
  returns on fields 3 and 4. The row it then gives.
\<close>

definition returns_string :: "error + cell \<Rightarrow> bool" where
  "returns_string v = (case v of Inl e \<Rightarrow> False | Inr None \<Rightarrow> False | Inr (Some s) \<Rightarrow> True)"

definition lp_cleanable :: "(cell \<Rightarrow> error + cell) \<Rightarrow> (cell \<Rightarrow> error + cell) \<Rightarrow> row \<Rightarrow> bool" where
  "lp_cleanable extract_course_code da_clean_date r =
     (5 \<le> length r \<and> r ! 0 \<noteq> None \<and> r ! 1 \<noteq> None \<and>
      returns_string (extract_course_code (r ! 2)) \<and>
      \<not> isl (da_clean_date (r ! 3)) \<and> \<not> isl (da_clean_date (r ! 4)))"

definition lp_cleaned :: "(cell \<Rightarrow> error + cell) \<Rightarrow> (cell \<Rightarrow> error + cell) \<Rightarrow> row \<Rightarrow> row" where
  "lp_cleaned extract_course_code da_clean_date r =
     [map_option strip (r ! 0), map_option strip (r ! 1),
      map_option strip (projr (extract_course_code (r ! 2))),
      projr (da_clean_date (r ! 3)), projr (da_clean_date (r ! 4))]"

text \<open>A field that holds a \<open>DD/MM/YYYY\<close> string; a field that holds a date with a
  two-digit month and a four-digit year, the day with or without its leading zero.\<close>

definition date_shaped :: "cell \<Rightarrow> bool" where
  "date_shaped c = (case c of None \<Rightarrow> False | Some d \<Rightarrow> is_ddmmyyyy d)"

definition paddable :: "cell \<Rightarrow> bool" where
  "paddable c = (case c of None \<Rightarrow> False | Some d \<Rightarrow> is_dmmyyyy d \<or> is_ddmmyyyy d)"

text \<open>
  The value of a row under a label, for a row as wide as the labels; the rows of the right
  table whose key matches the key of a left row; whether the two dates of a joined row
  differ.
\<close>

definition cell_at :: "string list \<Rightarrow> entry list \<Rightarrow> string \<Rightarrow> entry" where
  "cell_at cols r label = (case index_of cols label of None \<Rightarrow> NaN | Some i \<Rightarrow> r ! i)"

definition matches :: "dataframe \<Rightarrow> dataframe \<Rightarrow> string \<Rightarrow> entry list \<Rightarrow> entry list list" where
  "matches df_1 df_2 common l =
     filter (\<lambda>r. key_eq (cell_at (columns df_2) r common) (cell_at (columns df_1) l common))
       (records df_2)"

definition dates_differ :: "string list \<Rightarrow> string \<Rightarrow> entry list \<Rightarrow> bool" where
  "dates_differ cols col_name r =
     ne_cell (cell_at cols r (col_name @ ''_1'')) (cell_at cols r (col_name @ ''_2''))"

section \<open>Properties of the date normalizer\<close>

lemma ten_chars:
  assumes "10 \<le> length s"
  obtains a0 a1 a2 a3 a4 a5 a6 a7 a8 a9 rest
  where "s = a0 # a1 # a2 # a3 # a4 # a5 # a6 # a7 # a8 # a9 # rest"
proof -
  from assms have "\<exists>a0 a1 a2 a3 a4 a5 a6 a7 a8 a9 rest.
      s = a0 # a1 # a2 # a3 # a4 # a5 # a6 # a7 # a8 # a9 # rest"
    by (simp add: numeral_eq_Suc Suc_le_length_iff) blast
  then show ?thesis using that by blast
qed

lemma clean_date_2_chars:
  assumes "10 \<le> length s"
  shows "clean_date_2 s =
    [s ! 8, s ! 9, CHR ''/'', s ! 5, s ! 6, CHR ''/'', s ! 0, s ! 1, s ! 2, s ! 3]"
proof -
  obtain a0 a1 a2 a3 a4 a5 a6 a7 a8 a9 rest
    where "s = a0 # a1 # a2 # a3 # a4 # a5 # a6 # a7 # a8 # a9 # rest"
    using assms by (rule ten_chars)
  then show ?thesis by (simp add: clean_date_2_def slice_def)
qed

lemma clean_date_2_shape: "is_iso_prefix s \<Longrightarrow> is_ddmmyyyy (clean_date_2 s)"
  by (simp add: clean_date_2_chars is_iso_prefix_def is_ddmmyyyy_def)

text \<open>
  C8: for a value whose string form begins \<open>YYYY-MM-DD\<close>, \<open>clean_date_2\<close>
  (\<open>formatFromTimestamp\<close>) returns characters 8-9 (day), a slash, characters 5-6 (month),
  a slash and characters 0-3 (year), a string of the shape \<open>DD/MM/YYYY\<close>; the
  extraction by offset holds for every string form of ten characters or more. In particular
  the timestamp 2020-03-05T00:00:00 gives 05/03/2020.
\<close>

theorem clean_date_2_from_timestamp:
  "(10 \<le> length s \<longrightarrow>
      clean_date_2 s =
        [s ! 8, s ! 9] @ ''/'' @ [s ! 5, s ! 6] @ ''/'' @ [s ! 0, s ! 1, s ! 2, s ! 3]) \<and>
   (is_iso_prefix s \<longrightarrow> is_ddmmyyyy (clean_date_2 s)) \<and>
   clean_date_2 ''2020-03-05T00:00:00'' = ''05/03/2020''"
proof (intro conjI impI)
  assume "10 \<le> length s"
  then show "clean_date_2 s =
      [s ! 8, s ! 9] @ ''/'' @ [s ! 5, s ! 6] @ ''/'' @ [s ! 0, s ! 1, s ! 2, s ! 3]"
    by (simp add: clean_date_2_chars)
next
  assume "is_iso_prefix s"
  then show "is_ddmmyyyy (clean_date_2 s)" by (rule clean_date_2_shape)
next
  show "clean_date_2 ''2020-03-05T00:00:00'' = ''05/03/2020''"
    by (simp add: clean_date_2_def slice_def)
qed

theorem clean_date_2_from_timestamp_witness:
  "10 \<le> length ''2020-03-01 00:00:00'' \<and> is_iso_prefix ''2020-03-01 00:00:00'' \<and>
   clean_date_2 ''2020-03-01 00:00:00'' = ''01/03/2020'' \<and>
   is_ddmmyyyy (clean_date_2 ''2020-03-01 00:00:00'')"
proof -
  have len: "10 \<le> length ''2020-03-01 00:00:00''" by simp
  have iso: "is_iso_prefix ''2020-03-01 00:00:00''"
    by (simp add: is_iso_prefix_def is_digit_def)
  note th = clean_date_2_from_timestamp [of "''2020-03-01 00:00:00''"]
  from th len have "clean_date_2 ''2020-03-01 00:00:00'' =
      [''2020-03-01 00:00:00'' ! 8, ''2020-03-01 00:00:00'' ! 9] @ ''/'' @
      [''2020-03-01 00:00:00'' ! 5, ''2020-03-01 00:00:00'' ! 6] @ ''/'' @
      [''2020-03-01 00:00:00'' ! 0, ''2020-03-01 00:00:00'' ! 1,
       ''2020-03-01 00:00:00'' ! 2, ''2020-03-01 00:00:00'' ! 3]"
    by (rule conjunct1 [THEN mp])
  then have val: "clean_date_2 ''2020-03-01 00:00:00'' = ''01/03/2020''" by simp
  from th iso have shape: "is_ddmmyyyy (clean_date_2 ''2020-03-01 00:00:00'')"
    by (rule conjunct2 [THEN conjunct1, THEN mp])
  from len iso val shape show ?thesis by (intro conjI)

qed

text \<open>
  C9: \<open>clean_date\<close> (\<open>padDay\<close>) prepends the character 0 to an input of exactly 9
  characters and returns every other input unchanged; it is the identity on every
  well-formed \<open>DD/MM/YYYY\<close> string of 10 characters.
\<close>

theorem clean_date_pad_day:
  "(length s = 9 \<longrightarrow> clean_date s = CHR ''0'' # s) \<and>
   (length s \<noteq> 9 \<longrightarrow> clean_date s = s) \<and>
   (is_ddmmyyyy s \<longrightarrow> clean_date s = s)"
  by (simp add: clean_date_def is_ddmmyyyy_def)

theorem clean_date_pad_day_witness:
  "length ''5/11/2019'' = 9 \<and> clean_date ''5/11/2019'' = ''05/11/2019'' \<and>
   length ''5/1/2019'' \<noteq> 9 \<and> clean_date ''5/1/2019'' = ''5/1/2019'' \<and>
   is_ddmmyyyy ''25/11/2019'' \<and> clean_date ''25/11/2019'' = ''25/11/2019''"
proof -
  have shape: "is_ddmmyyyy ''25/11/2019''"
    by (simp add: is_ddmmyyyy_def is_digit_def)
  from clean_date_pad_day [of "''5/11/2019''"] clean_date_pad_day [of "''5/1/2019''"]
    clean_date_pad_day [of "''25/11/2019''"] shape
  show ?thesis by simp
qed

text \<open>
  C10: \<open>clean_date\<close> is idempotent on all strings: a 9-character input becomes 10
  characters long, and every other length is left unchanged.
\<close>

theorem clean_date_idempotent: "clean_date (clean_date s) = clean_date s"
proof (cases "length s = 9")
  case True
  then have "length (clean_date s) = 10" by (simp add: clean_date_def)
  then show ?thesis by (simp add: clean_date_def)
next
  case False
  then show ?thesis by (simp add: clean_date_def)
qed

section \<open>Properties of the record validator\<close>

lemma bind_err_Inr [simp]: "bind_err (Inr x) f = f x"
  by (simp add: bind_err_def)

lemma bind_err_Inl [simp]: "bind_err (Inl e) f = Inl e"
  by (simp add: bind_err_def)

lemma get_in_range: "i < length xs \<Longrightarrow> get xs i = Inr (xs ! i)"
  by (simp add: get_def)

lemma append_if_missing_ok:
  assumes "i < length r"
  shows "append_if_missing i txt r acc = Inr (acc @ msgs_for i txt r)"
proof -
  from assms have "0 < length r" by auto
  with assms show ?thesis
    by (simp add: append_if_missing_def missing_msg_def msgs_for_def get_in_range)
qed

lemma edsd_student_ok:
  assumes "5 \<le> length r"
  shows "edsd_student r (es, ws) =
    Inr (es @ msgs_for 1 course_code_txt r @ msgs_for 3 enrolment_txt r @ msgs_for 4 expiry_txt r,
         ws @ msgs_for 2 tutor_txt r)"
  using assms by (simp add: edsd_student_def append_if_missing_ok)

lemma edlp_student_ok:
  assumes "5 \<le> length r"
  shows "edlp_student r (es, ws) =
    Inr (es @ msgs_for 2 course_txt r @ msgs_for 3 enrolment_txt r @ msgs_for 4 expiry_txt r,
         ws @ msgs_for 1 student_name_txt r)"
  using assms by (simp add: edlp_student_def append_if_missing_ok)

lemma check_edsd_loop_ok:
  assumes "\<forall>r \<in> set rows. 5 \<le> length r"
  shows "check_edsd_loop rows (es, ws) =
    Inr (es @ concat (map (\<lambda>r. msgs_for 1 course_code_txt r @ msgs_for 3 enrolment_txt r @
                                 msgs_for 4 expiry_txt r) rows),
         ws @ concat (map (msgs_for 2 tutor_txt) rows))"
  using assms
proof (induction rows arbitrary: es ws)
  case Nil
  show ?case by simp
next
  case (Cons r rows)
  then show ?case by (simp add: edsd_student_ok)
qed

lemma check_edlp_loop_ok:
  assumes "\<forall>r \<in> set rows. 5 \<le> length r"
  shows "check_edlp_loop rows (es, ws) =
    Inr (es @ concat (map (\<lambda>r. msgs_for 2 course_txt r @ msgs_for 3 enrolment_txt r @
                                 msgs_for 4 expiry_txt r) rows),
         ws @ concat (map (msgs_for 1 student_name_txt) rows))"
  using assms
proof (induction rows arbitrary: es ws)
  case Nil
  show ?case by simp
next
  case (Cons r rows)
  then show ?case by (simp add: edlp_student_ok)
qed

lemma msgs_for_empty [simp]: "msgs_for i txt r = [] \<longleftrightarrow> \<not> is_missing (r ! i)"
  by (simp add: msgs_for_def)

lemma concat_msgs_empty:
  "concat (map (msgs_for i txt) rows) = [] \<longleftrightarrow> \<not> (\<exists>r \<in> set rows. is_missing (r ! i))"
  by (induction rows) (auto simp: msgs_for_def)

lemma check_edsd_ok:
  assumes "\<forall>r \<in> set rows. 5 \<le> length r"
  shows "check_edsd rows =
    Inr \<lparr>error_log =
           (let errors = concat (map (\<lambda>r. msgs_for 1 course_code_txt r @
                          msgs_for 3 enrolment_txt r @ msgs_for 4 expiry_txt r) rows)
            in if errors = [] then None else Some (errors, edsd_label)),
         has_warnings = (\<exists>r \<in> set rows. is_missing (r ! 2)),
         warnings = edsd_header # concat (map (msgs_for 2 tutor_txt) rows)\<rparr>"
  using assms by (simp add: check_edsd_def check_edsd_loop_ok Let_def)

lemma check_edlp_ok:
  assumes "\<forall>r \<in> set rows. 5 \<le> length r"
  shows "check_edlp rows =
    Inr \<lparr>error_log =
           (let errors = concat (map (\<lambda>r. msgs_for 2 course_txt r @
                          msgs_for 3 enrolment_txt r @ msgs_for 4 expiry_txt r) rows)
            in if errors = [] then None else Some (errors, edlp_label)),
         has_warnings = (\<exists>r \<in> set rows. is_missing (r ! 1)),
         warnings = edlp_header # concat (map (msgs_for 1 student_name_txt) rows)\<rparr>"
  using assms by (simp add: check_edlp_def check_edlp_loop_ok Let_def)

lemma concat_msgs3_empty:
  "concat (map (\<lambda>r. msgs_for i a r @ msgs_for j b r @ msgs_for k c r) rows) = [] \<longleftrightarrow>
   \<not> (\<exists>r \<in> set rows. is_missing (r ! i) \<or> is_missing (r ! j) \<or> is_missing (r ! k))"
  by (induction rows) (auto simp: msgs_for_def)

lemma read_loop_ok:
  assumes "\<forall>r \<in> set rows. 0 < length r"
  shows "read_loop rows acc = Inr (acc @ filter (\<lambda>r. \<not> is_missing (r ! 0)) rows)"
  using assms by (induction rows arbitrary: acc) (simp_all add: get_in_range)

lemma load_data_edsd:
  assumes "\<forall>r \<in> set rows. 5 \<le> length r"
    and "check_edsd (filter (\<lambda>r. \<not> is_missing (r ! 0)) rows) = Inr res"
  shows "load_data rows ''edsd'' =
    Inr \<lparr>read_data = filter (\<lambda>r. \<not> is_missing (r ! 0)) rows, to_add = False,
         warnings_to_add = [], logged = error_log res\<rparr>"
proof -
  from assms(1) have "\<forall>r \<in> set rows. 0 < length r" by auto
  then have "read_loop rows [] = Inr (filter (\<lambda>r. \<not> is_missing (r ! 0)) rows)"
    by (simp add: read_loop_ok)
  with assms(2) show ?thesis by (simp add: load_data_def)
qed

lemma load_data_edlp:
  assumes "\<forall>r \<in> set rows. 5 \<le> length r"
    and "check_edlp (filter (\<lambda>r. \<not> is_missing (r ! 0)) rows) = Inr res"
  shows "load_data rows ''edlp'' =
    Inr \<lparr>read_data = filter (\<lambda>r. \<not> is_missing (r ! 0)) rows, to_add = False,
         warnings_to_add = [], logged = error_log res\<rparr>"
proof -
  from assms(1) have "\<forall>r \<in> set rows. 0 < length r" by auto
  then have "read_loop rows [] = Inr (filter (\<lambda>r. \<not> is_missing (r ! 0)) rows)"
    by (simp add: read_loop_ok)
  with assms(2) show ?thesis by (simp add: load_data_def)
qed

text \<open>
  C5: on rows of five fields the validators classify null-or-empty fields by the contract
  of the source. \<open>check_edsd\<close>: field 1 (Course), field 3 (EnrolmentDate) and field 4
  (ExpiryDate) are errors, field 2 (Tutor) is a warning. \<open>check_edlp\<close>: field 1
  (StudentName) is a warning, fields 2, 3 and 4 (Course, EnrolmentDate, ExpiryDate) are
  errors. The warnings list starts with the header, and the boolean is true exactly when a
  warning was appended after it. The Source A row with an empty Course gives one error and
  no warning after the header; the Source B row with an empty StudentName gives one
  warning and no error.
\<close>

theorem validators_classify:
  assumes "\<forall>r \<in> set rows. 5 \<le> length r"
  shows
    "check_edsd rows =
       Inr \<lparr>error_log =
              (let errors = concat (map (\<lambda>r. msgs_for 1 course_code_txt r @
                             msgs_for 3 enrolment_txt r @ msgs_for 4 expiry_txt r) rows)
               in if errors = [] then None else Some (errors, edsd_label)),
            has_warnings = (\<exists>r \<in> set rows. is_missing (r ! 2)),
            warnings = edsd_header # concat (map (msgs_for 2 tutor_txt) rows)\<rparr> \<and>
     check_edlp rows =
       Inr \<lparr>error_log =
              (let errors = concat (map (\<lambda>r. msgs_for 2 course_txt r @
                             msgs_for 3 enrolment_txt r @ msgs_for 4 expiry_txt r) rows)
               in if errors = [] then None else Some (errors, edlp_label)),
            has_warnings = (\<exists>r \<in> set rows. is_missing (r ! 1)),
            warnings = edlp_header # concat (map (msgs_for 1 student_name_txt) rows)\<rparr> \<and>
     check_edsd [[Some ''1'', Some [], Some ''T'', Some ''1/1/2020'', Some ''1/1/2021'']] =
       Inr \<lparr>error_log = Some ([''Course code is missing for student with Student ID 1''],
                                ''Enrolment Dates (Student Database) Report''),
            has_warnings = False, warnings = [edsd_header]\<rparr> \<and>
     check_edlp [[Some ''1'', Some [], Some ''C'', Some ''1/1/2020'', Some ''1/1/2021'']] =
       Inr \<lparr>error_log = None, has_warnings = True,
            warnings = [edlp_header, ''Student Name is missing for student with Student ID 1'']\<rparr>"
proof (intro conjI)
  show "check_edsd rows =
       Inr \<lparr>error_log =
              (let errors = concat (map (\<lambda>r. msgs_for 1 course_code_txt r @
                             msgs_for 3 enrolment_txt r @ msgs_for 4 expiry_txt r) rows)
               in if errors = [] then None else Some (errors, edsd_label)),
            has_warnings = (\<exists>r \<in> set rows. is_missing (r ! 2)),
            warnings = edsd_header # concat (map (msgs_for 2 tutor_txt) rows)\<rparr>"
    using assms by (rule check_edsd_ok)
next
  show "check_edlp rows =
       Inr \<lparr>error_log =
              (let errors = concat (map (\<lambda>r. msgs_for 2 course_txt r @
                             msgs_for 3 enrolment_txt r @ msgs_for 4 expiry_txt r) rows)
               in if errors = [] then None else Some (errors, edlp_label)),
            has_warnings = (\<exists>r \<in> set rows. is_missing (r ! 1)),
            warnings = edlp_header # concat (map (msgs_for 1 student_name_txt) rows)\<rparr>"
    using assms by (rule check_edlp_ok)
next
  show "check_edsd [[Some ''1'', Some [], Some ''T'', Some ''1/1/2020'', Some ''1/1/2021'']] =
       Inr \<lparr>error_log = Some ([''Course code is missing for student with Student ID 1''],
                                ''Enrolment Dates (Student Database) Report''),
            has_warnings = False, warnings = [edsd_header]\<rparr>"
    by (simp add: check_edsd_ok msgs_for_def is_missing_def str_cell_def course_code_txt_def
        edsd_label_def)
next
  show "check_edlp [[Some ''1'', Some [], Some ''C'', Some ''1/1/2020'', Some ''1/1/2021'']] =
       Inr \<lparr>error_log = None, has_warnings = True,
            warnings = [edlp_header, ''Student Name is missing for student with Student ID 1'']\<rparr>"
    by (simp add: check_edlp_ok msgs_for_def is_missing_def str_cell_def student_name_txt_def)
qed

theorem validators_classify_witness:
  "list_all (\<lambda>r. 5 \<le> length r)
     [[Some ''7'', Some ''ABC-DE-FGH'', None, Some ''1/01/2020'', Some []]] \<and>
   check_edsd [[Some ''7'', Some ''ABC-DE-FGH'', None, Some ''1/01/2020'', Some []]] =
     Inr \<lparr>error_log = Some ([''Expiry Date is missing for student with Student ID 7''],
                              ''Enrolment Dates (Student Database) Report''),
          has_warnings = True,
          warnings = [edsd_header, ''Tutor is missing for student with Student ID 7'']\<rparr> \<and>
   check_edlp [[Some ''7'', Some ''ABC-DE-FGH'', None, Some ''1/01/2020'', Some []]] =
     Inr \<lparr>error_log = Some ([''Course is missing for student with Student ID 7'',
                               ''Expiry Date is missing for student with Student ID 7''],
                              ''Enrolment Dates (Learning Platform) Report''),
          has_warnings = False, warnings = [edlp_header]\<rparr>"
proof -
  have wf: "\<forall>r \<in> set [[Some ''7'', Some ''ABC-DE-FGH'', None, Some ''1/01/2020'', Some []]].
      5 \<le> length r" by simp
  from validators_classify [OF wf] wf show ?thesis
    by (simp add: msgs_for_def is_missing_def str_cell_def expiry_txt_def tutor_txt_def
        course_txt_def edsd_label_def edlp_label_def)
qed

text \<open>
  C6: on rows of five fields each validator calls the error-log sink exactly when at
  least one error was collected in the pass, with the report name of its source, and
  returns a result in every case; \<open>load_data\<close> then hands the rows on to the caller,
  errors or not.
\<close>

theorem validators_log_errors_and_return:
  assumes "\<forall>r \<in> set rows. 5 \<le> length r"
  shows
    "(\<exists>res. check_edsd rows = Inr res \<and>
        (error_log res \<noteq> None \<longleftrightarrow>
           (\<exists>r \<in> set rows. is_missing (r ! 1) \<or> is_missing (r ! 3) \<or> is_missing (r ! 4))) \<and>
        (\<forall>errors label. error_log res = Some (errors, label) \<longrightarrow>
           errors \<noteq> [] \<and> label = ''Enrolment Dates (Student Database) Report'')) \<and>
     (\<exists>res. check_edlp rows = Inr res \<and>
        (error_log res \<noteq> None \<longleftrightarrow>
           (\<exists>r \<in> set rows. is_missing (r ! 2) \<or> is_missing (r ! 3) \<or> is_missing (r ! 4))) \<and>
        (\<forall>errors label. error_log res = Some (errors, label) \<longrightarrow>
           errors \<noteq> [] \<and> label = ''Enrolment Dates (Learning Platform) Report'')) \<and>
     (\<exists>l. load_data rows ''edsd'' = Inr l \<and>
        read_data l = filter (\<lambda>r. \<not> is_missing (r ! 0)) rows) \<and>
     (\<exists>l. load_data rows ''edlp'' = Inr l \<and>
        read_data l = filter (\<lambda>r. \<not> is_missing (r ! 0)) rows)"
proof (intro conjI)
  let ?ea = "concat (map (\<lambda>r. msgs_for 1 course_code_txt r @
                msgs_for 3 enrolment_txt r @ msgs_for 4 expiry_txt r) rows)"
  let ?eb = "concat (map (\<lambda>r. msgs_for 2 course_txt r @
                msgs_for 3 enrolment_txt r @ msgs_for 4 expiry_txt r) rows)"
  have a: "?ea = [] \<longleftrightarrow>
      \<not> (\<exists>r \<in> set rows. is_missing (r ! 1) \<or> is_missing (r ! 3) \<or> is_missing (r ! 4))"
    by (rule concat_msgs3_empty)
  have b: "?eb = [] \<longleftrightarrow>
      \<not> (\<exists>r \<in> set rows. is_missing (r ! 2) \<or> is_missing (r ! 3) \<or> is_missing (r ! 4))"
    by (rule concat_msgs3_empty)
  show "\<exists>res. check_edsd rows = Inr res \<and>
        (error_log res \<noteq> None \<longleftrightarrow>
           (\<exists>r \<in> set rows. is_missing (r ! 1) \<or> is_missing (r ! 3) \<or> is_missing (r ! 4))) \<and>
        (\<forall>errors label. error_log res = Some (errors, label) \<longrightarrow>
           errors \<noteq> [] \<and> label = ''Enrolment Dates (Student Database) Report'')"
    unfolding check_edsd_ok [OF assms] Let_def using a
    by (cases "?ea = []") (simp_all add: edsd_label_def)
  show "\<exists>res. check_edlp rows = Inr res \<and>
        (error_log res \<noteq> None \<longleftrightarrow>
           (\<exists>r \<in> set rows. is_missing (r ! 2) \<or> is_missing (r ! 3) \<or> is_missing (r ! 4))) \<and>
        (\<forall>errors label. error_log res = Some (errors, label) \<longrightarrow>
           errors \<noteq> [] \<and> label = ''Enrolment Dates (Learning Platform) Report'')"
    unfolding check_edlp_ok [OF assms] Let_def using b
    by (cases "?eb = []") (simp_all add: edlp_label_def)
  have sub: "\<forall>r \<in> set (filter (\<lambda>r. \<not> is_missing (r ! 0)) rows). 5 \<le> length r"
    using assms by simp
  show "\<exists>l. load_data rows ''edsd'' = Inr l \<and>
        read_data l = filter (\<lambda>r. \<not> is_missing (r ! 0)) rows"
    using load_data_edsd [OF assms check_edsd_ok [OF sub]] by simp
  show "\<exists>l. load_data rows ''edlp'' = Inr l \<and>
        read_data l = filter (\<lambda>r. \<not> is_missing (r ! 0)) rows"
    using load_data_edlp [OF assms check_edlp_ok [OF sub]] by simp
qed

theorem validators_log_errors_and_return_witness:
  "list_all (\<lambda>r. 5 \<le> length r)
     [[Some ''1'', Some [], Some ''T'', Some ''1/1/2020'', Some ''1/1/2021'']] \<and>
   (\<exists>res. check_edsd [[Some ''1'', Some [], Some ''T'', Some ''1/1/2020'', Some ''1/1/2021'']]
        = Inr res \<and> error_log res \<noteq> None) \<and>
   (\<exists>res. check_edlp [[Some ''1'', Some [], Some ''T'', Some ''1/1/2020'', Some ''1/1/2021'']]
        = Inr res \<and> error_log res = None)"
proof -
  have wf: "\<forall>r \<in> set [[Some ''1'', Some [], Some ''T'', Some ''1/1/2020'', Some ''1/1/2021'']].
      5 \<le> length r" by simp
  let ?ex = "[[Some ''1'', Some [], Some ''T'', Some ''1/1/2020'', Some ''1/1/2021'']]"
  note th = validators_log_errors_and_return [OF wf]
  from th obtain ra where ra: "check_edsd ?ex = Inr ra"
    and ia: "error_log ra \<noteq> None \<longleftrightarrow>
      (\<exists>r \<in> set ?ex. is_missing (r ! 1) \<or> is_missing (r ! 3) \<or> is_missing (r ! 4))"
    by (elim conjE exE)
  from th obtain rb where rb: "check_edlp ?ex = Inr rb"
    and ib: "error_log rb \<noteq> None \<longleftrightarrow>
      (\<exists>r \<in> set ?ex. is_missing (r ! 2) \<or> is_missing (r ! 3) \<or> is_missing (r ! 4))"
    by (elim conjE exE)
  from ia have la: "error_log ra \<noteq> None" by (simp add: is_missing_def)
  from ib have "\<not> error_log rb \<noteq> None" by (simp only: is_missing_def) simp
  then have lb: "error_log rb = None" by blast
  have "list_all (\<lambda>r. 5 \<le> length r) ?ex" by simp
  with ra la rb lb show ?thesis by (intro conjI exI)
qed

text \<open>
  A row with fewer fields than the schema of its source is outside the contract: the
  index raises, and the validator and the loader raise with it.
\<close>

lemma validators_short_row:
  "check_edsd [[Some ''1'', Some ''C'']] = Inl IndexError \<and>
   check_edlp [[Some ''1'', Some ''C'']] = Inl IndexError \<and>
   load_data [[Some ''1'', Some ''C'']] ''edsd'' = Inl IndexError \<and>
   load_data [[]] ''edsd'' = Inl IndexError"
  by code_simp

section \<open>Properties of the record cleaner\<close>

lemma strip_cell_Some [simp]: "strip_cell (Some s) = Inr (Some (strip s))"
  by (simp add: strip_cell_def)

lemma clean_date_cell_Some [simp]: "clean_date_cell (Some d) = Inr (Some (clean_date d))"
  by (simp add: clean_date_cell_def)

lemma clean_sd_student_ok:
  assumes "sd_cleanable r"
  shows "clean_sd_student r = Inr (sd_cleaned r)"
proof -
  from assms have len: "0 < length r" "1 < length r" "3 < length r" "4 < length r"
    by (auto simp: sd_cleanable_def)
  from assms obtain a b c d where "r ! 0 = Some a" "r ! 1 = Some b" "r ! 3 = Some c" "r ! 4 = Some d"
    by (auto simp: sd_cleanable_def)
  with len show ?thesis
    by (simp add: clean_sd_student_def sd_cleaned_def get_in_range)
qed

lemma clean_sd_loop_ok:
  assumes "\<forall>r \<in> set raw. sd_cleanable r"
  shows "clean_sd_loop raw acc = Inr (acc @ map sd_cleaned raw)"
  using assms by (induction raw arbitrary: acc) (simp_all add: clean_sd_student_ok)

lemma clean_sd_data_ok:
  assumes "\<forall>r \<in> set raw. sd_cleanable r"
  shows "clean_sd_data raw = Inr (map sd_cleaned raw)"
  using assms by (simp add: clean_sd_data_def clean_sd_loop_ok)

lemma is_digit_zero: "is_digit CHR ''0''"
  by (simp add: is_digit_def)

lemma clean_date_shape:
  assumes "is_dmmyyyy d \<or> is_ddmmyyyy d"
  shows "is_ddmmyyyy (clean_date d)"
proof (cases "length d = 9")
  case True
  with assms have "is_dmmyyyy d" by (auto simp: is_ddmmyyyy_def)
  with True show ?thesis
    by (simp add: clean_date_def is_dmmyyyy_def is_ddmmyyyy_def nth_Cons' is_digit_zero)
next
  case False
  with assms have "is_ddmmyyyy d" by (auto simp: is_dmmyyyy_def)
  with False show ?thesis by (simp add: clean_date_def)
qed

lemma clean_date_empty: "clean_date [] = []"
  by (simp add: clean_date_def)

lemma clean_lp_student_ok:
  assumes "lp_cleanable ext dcd r"
  shows "clean_lp_student ext dcd r = Inr (lp_cleaned ext dcd r)"
proof -
  from assms have len: "0 < length r" "1 < length r" "2 < length r" "3 < length r" "4 < length r"
    by (auto simp: lp_cleanable_def)
  from assms obtain a b where ab: "r ! 0 = Some a" "r ! 1 = Some b"
    by (auto simp: lp_cleanable_def)
  from assms obtain code where code: "ext (r ! 2) = Inr (Some code)"
    by (auto simp: lp_cleanable_def returns_string_def split: sum.splits option.splits)
  from assms have "\<not> isl (dcd (r ! 3))" "\<not> isl (dcd (r ! 4))"
    by (simp_all add: lp_cleanable_def)
  then obtain d3 d4 where d: "dcd (r ! 3) = Inr d3" "dcd (r ! 4) = Inr d4"
    by (cases "dcd (r ! 3)"; cases "dcd (r ! 4)") simp_all
  with len ab code show ?thesis
    by (simp add: clean_lp_student_def lp_cleaned_def get_in_range)
qed

lemma bind_err_InrE:
  assumes "bind_err m f = Inr y"
  obtains x where "m = Inr x" and "f x = Inr y"
  using assms by (cases m) simp_all

lemma get_InrD: "get xs i = Inr x \<Longrightarrow> i < length xs \<and> x = xs ! i"
  by (simp add: get_def split: if_splits)

lemma strip_cell_InrD: "strip_cell c = Inr d \<Longrightarrow> c \<noteq> None"
  by (cases c) (simp_all add: strip_cell_def)

lemma clean_lp_student_InrD:
  assumes "clean_lp_student ext dcd r = Inr c"
  shows "lp_cleanable ext dcd r"
proof -
  from assms obtain f0 c0 f1 c1 f2 code c2 f3 c3 f4 c4 where
    g0: "get r 0 = Inr f0" and s0: "strip_cell f0 = Inr c0" and
    g1: "get r 1 = Inr f1" and s1: "strip_cell f1 = Inr c1" and
    g2: "get r 2 = Inr f2" and e2: "ext f2 = Inr code" and s2: "strip_cell code = Inr c2" and
    g3: "get r 3 = Inr f3" and d3: "dcd f3 = Inr c3" and
    g4: "get r 4 = Inr f4" and d4: "dcd f4 = Inr c4"
    unfolding clean_lp_student_def by (elim bind_err_InrE)
  from get_InrD [OF g0] get_InrD [OF g1] get_InrD [OF g2] get_InrD [OF g3] get_InrD [OF g4]
  have idx: "f0 = r ! 0" "f1 = r ! 1" "f2 = r ! 2" "f3 = r ! 3" "f4 = r ! 4" "4 < length r"
    by simp_all
  from strip_cell_InrD [OF s2] e2 have "returns_string (ext f2)"
    by (cases code) (simp_all add: returns_string_def)
  moreover from strip_cell_InrD [OF s0] have "f0 \<noteq> None" .
  moreover from strip_cell_InrD [OF s1] have "f1 \<noteq> None" .
  moreover from d3 d4 have "\<not> isl (dcd f3)" "\<not> isl (dcd f4)" by simp_all
  ultimately show ?thesis using idx by (simp add: lp_cleanable_def)
qed

lemma clean_lp_student_raises:
  assumes "\<not> lp_cleanable ext dcd r"
  shows "\<exists>e. clean_lp_student ext dcd r = Inl e"
proof (cases "clean_lp_student ext dcd r")
  case (Inl e)
  then show ?thesis by blast
next
  case (Inr c)
  from clean_lp_student_InrD [OF this] assms show ?thesis by simp
qed

lemma clean_lp_loop_ok:
  assumes "\<forall>r \<in> set raw. lp_cleanable ext dcd r"
  shows "clean_lp_loop ext dcd raw acc = Inr (acc @ map (lp_cleaned ext dcd) raw)"
  using assms by (induction raw arbitrary: acc) (simp_all add: clean_lp_student_ok)

lemma clean_lp_loop_raises:
  assumes "\<exists>r \<in> set raw. \<not> lp_cleanable ext dcd r"
  shows "\<exists>e. clean_lp_loop ext dcd raw acc = Inl e"
  using assms
proof (induction raw arbitrary: acc)
  case Nil
  then show ?case by simp
next
  case (Cons r raw)
  show ?case
  proof (cases "lp_cleanable ext dcd r")
    case True
    with Cons.prems have "\<exists>r \<in> set raw. \<not> lp_cleanable ext dcd r" by simp
    from Cons.IH [OF this] True show ?thesis by (simp add: clean_lp_student_ok)
  next
    case False
    from clean_lp_student_raises [OF this] show ?thesis by auto
  qed
qed

lemma remove_students_loop_ok:
  assumes "\<forall>r \<in> set students. location < length r"
  shows "remove_students_loop students location identifier acc =
    Inr (acc @ filter (\<lambda>r. r ! location \<noteq> identifier) students)"
  using assms by (induction students arbitrary: acc) (simp_all add: get_in_range)

lemma remove_students_ok:
  assumes "\<forall>r \<in> set students. location < length r"
  shows "remove_students students location identifier =
    Inr (filter (\<lambda>r. r ! location \<noteq> identifier) students)"
  using assms by (simp add: remove_students_def remove_students_loop_ok)

lemma length_lp_cleaned [simp]: "length (lp_cleaned ext dcd r) = 5"
  by (simp add: lp_cleaned_def)

lemma length_sd_cleaned [simp]: "length (sd_cleaned r) = 4"
  by (simp add: sd_cleaned_def)

lemma clean_lp_data_ok:
  assumes "\<forall>r \<in> set raw. lp_cleanable ext dcd r"
  shows "clean_lp_data ext dcd raw =
    Inr (filter (\<lambda>c. c ! 2 \<noteq> Some ''Skip'') (map (lp_cleaned ext dcd) raw))"
proof -
  have "\<forall>c \<in> set (map (lp_cleaned ext dcd) raw). 2 < length c" by simp
  then have "remove_students (map (lp_cleaned ext dcd) raw) 2 (Some ''Skip'') =
      Inr (filter (\<lambda>c. c ! 2 \<noteq> Some ''Skip'') (map (lp_cleaned ext dcd) raw))"
    by (rule remove_students_ok)
  with assms show ?thesis by (simp add: clean_lp_data_def clean_lp_loop_ok)
qed

lemma clean_lp_data_raises:
  assumes "\<exists>r \<in> set raw. \<not> lp_cleanable ext dcd r"
  shows "\<exists>e. clean_lp_data ext dcd raw = Inl e"
proof -
  from clean_lp_loop_raises [OF assms] obtain e where "clean_lp_loop ext dcd raw [] = Inl e"
    by blast
  then show ?thesis by (simp add: clean_lp_data_def)
qed

text \<open>
  C1 (as amended): for raw Source A rows that the cleaner can clean, \<open>clean_sd_data\<close>
  gives one cleaned row per raw row, in order. When the EnrolmentDate or ExpiryDate field
  is a \<open>D/MM/YYYY\<close> string of 9 characters or a \<open>DD/MM/YYYY\<close> string of 10
  characters, the StartDate or ExpiryDate field of the cleaned row matches
  \<open>DD/MM/YYYY\<close>; when the raw field is empty, the cleaned field is empty.
\<close>

theorem clean_sd_data_dates:
  assumes "\<forall>r \<in> set raw. sd_cleanable r"
  shows "clean_sd_data raw = Inr (map sd_cleaned raw) \<and>
    (\<forall>r \<in> set raw.
       (paddable (r ! 3) \<longrightarrow> date_shaped (sd_cleaned r ! 2)) \<and>
       (paddable (r ! 4) \<longrightarrow> date_shaped (sd_cleaned r ! 3)) \<and>
       (r ! 3 = Some [] \<longrightarrow> sd_cleaned r ! 2 = Some []) \<and>
       (r ! 4 = Some [] \<longrightarrow> sd_cleaned r ! 3 = Some []))"
proof (intro conjI ballI impI)
  show "clean_sd_data raw = Inr (map sd_cleaned raw)"
    using assms by (rule clean_sd_data_ok)
next
  fix r :: row
  assume "paddable (r ! 3)"
  then obtain d where "r ! 3 = Some d" and "is_dmmyyyy d \<or> is_ddmmyyyy d"
    by (cases "r ! 3") (simp_all add: paddable_def)
  then show "date_shaped (sd_cleaned r ! 2)"
    by (simp add: sd_cleaned_def date_shaped_def clean_date_shape)
next
  fix r :: row
  assume "paddable (r ! 4)"
  then obtain d where "r ! 4 = Some d" and "is_dmmyyyy d \<or> is_ddmmyyyy d"
    by (cases "r ! 4") (simp_all add: paddable_def)
  then show "date_shaped (sd_cleaned r ! 3)"
    by (simp add: sd_cleaned_def date_shaped_def clean_date_shape)
next
  fix r :: row
  assume "r ! 3 = Some []"
  then show "sd_cleaned r ! 2 = Some []"
    by (simp add: sd_cleaned_def clean_date_empty)
next
  fix r :: row
  assume "r ! 4 = Some []"
  then show "sd_cleaned r ! 3 = Some []"
    by (simp add: sd_cleaned_def clean_date_empty)
qed

theorem clean_sd_data_dates_witness:
  "list_all sd_cleanable
     [[Some ''1001 '', Some ''ABC-DE-FGH'', Some ''T'', Some ''1/03/2020'', Some []]] \<and>
   paddable (Some ''1/03/2020'') \<and>
   clean_sd_data [[Some ''1001 '', Some ''ABC-DE-FGH'', Some ''T'', Some ''1/03/2020'', Some []]] =
     Inr [[Some ''1001'', Some ''ABC-DE-FGH'', Some ''01/03/2020'', Some []]] \<and>
   date_shaped (Some ''01/03/2020'')"
proof -
  let ?r = "[Some ''1001 '', Some ''ABC-DE-FGH'', Some ''T'', Some ''1/03/2020'', Some []]"
  have ok: "sd_cleanable ?r" by (simp add: sd_cleanable_def)
  then have all: "\<forall>r \<in> set [?r]. sd_cleanable r" by simp
  have pad: "paddable (Some ''1/03/2020'')" by code_simp
  have val: "sd_cleaned ?r = [Some ''1001'', Some ''ABC-DE-FGH'', Some ''01/03/2020'', Some []]"
    by code_simp
  note th = clean_sd_data_dates [OF all]
  from th have eq: "clean_sd_data [?r] = Inr (map sd_cleaned [?r])" by (rule conjunct1)
  from th have "paddable (?r ! 3) \<longrightarrow> date_shaped (sd_cleaned ?r ! 2)" by simp
  with pad have shaped: "date_shaped (Some ''01/03/2020'')" by (simp add: val)
  from eq have res: "clean_sd_data [?r] =
      Inr [[Some ''1001'', Some ''ABC-DE-FGH'', Some ''01/03/2020'', Some []]]"
    by (simp add: val)
  from ok pad res shaped show ?thesis by simp
qed

theorem clean_sd_data_dates_counterexample:
  "clean_sd_data
     [[Some ''1001'', Some ''ABC-DE-FGH'', Some ''T'', Some ''2020-03-01'', Some ''2021-03-01'']] =
     Inr [[Some ''1001'', Some ''ABC-DE-FGH'', Some ''2020-03-01'', Some ''2021-03-01'']] \<and>
   ''2020-03-01'' \<noteq> [] \<and> ''2021-03-01'' \<noteq> [] \<and>
   \<not> is_ddmmyyyy ''2020-03-01'' \<and> \<not> is_ddmmyyyy ''2021-03-01''"
  by code_simp

text \<open>
  C7: for every list of raw Source B rows that can all be cleaned, \<open>clean_lp_data\<close>
  returns the cleaned rows whose course-code field (index 2) is not the string Skip,
  compared exactly and with case, in the order of the input, none merged and none
  deduplicated; it drops the others. When a row cannot be cleaned, the call raises.
\<close>

theorem clean_lp_data_drops_skip:
  "((\<forall>r \<in> set raw. lp_cleanable ext dcd r) \<longrightarrow>
      clean_lp_data ext dcd raw =
        Inr (filter (\<lambda>c. c ! 2 \<noteq> Some ''Skip'') (map (lp_cleaned ext dcd) raw))) \<and>
   ((\<exists>r \<in> set raw. \<not> lp_cleanable ext dcd r) \<longrightarrow>
      (\<exists>e. clean_lp_data ext dcd raw = Inl e))"
proof (intro conjI impI)
  assume "\<forall>r \<in> set raw. lp_cleanable ext dcd r"
  then show "clean_lp_data ext dcd raw =
      Inr (filter (\<lambda>c. c ! 2 \<noteq> Some ''Skip'') (map (lp_cleaned ext dcd) raw))"
    by (rule clean_lp_data_ok)
next
  assume "\<exists>r \<in> set raw. \<not> lp_cleanable ext dcd r"
  then show "\<exists>e. clean_lp_data ext dcd raw = Inl e"
    by (rule clean_lp_data_raises)
qed

theorem clean_lp_data_drops_skip_witness:
  "list_all (lp_cleanable (\<lambda>c. Inr c) format_from_timestamp)
     [[Some ''1'', Some ''Ann'', Some ''Skip'', Some ''2020-03-01'', Some ''2021-03-01''],
      [Some ''2'', Some ''Bob'', Some ''skip'', Some ''2020-03-02'', Some ''2021-03-02''],
      [Some ''3'', Some ''Cy'', Some ''ABC'', Some ''2020-03-03'', Some ''2021-03-03''],
      [Some ''3'', Some ''Cy'', Some ''ABC'', Some ''2020-03-03'', Some ''2021-03-03'']] \<and>
   clean_lp_data (\<lambda>c. Inr c) format_from_timestamp
     [[Some ''1'', Some ''Ann'', Some ''Skip'', Some ''2020-03-01'', Some ''2021-03-01''],
      [Some ''2'', Some ''Bob'', Some ''skip'', Some ''2020-03-02'', Some ''2021-03-02''],
      [Some ''3'', Some ''Cy'', Some ''ABC'', Some ''2020-03-03'', Some ''2021-03-03''],
      [Some ''3'', Some ''Cy'', Some ''ABC'', Some ''2020-03-03'', Some ''2021-03-03'']] =
     Inr [[Some ''2'', Some ''Bob'', Some ''skip'', Some ''02/03/2020'', Some ''02/03/2021''],
          [Some ''3'', Some ''Cy'', Some ''ABC'', Some ''03/03/2020'', Some ''03/03/2021''],
          [Some ''3'', Some ''Cy'', Some ''ABC'', Some ''03/03/2020'', Some ''03/03/2021'']] \<and>
   (\<exists>e. clean_lp_data (\<lambda>c. Inr c) format_from_timestamp [[Some ''4'', Some ''Di'']] = Inl e)"
proof -
  let ?raw = "[[Some ''1'', Some ''Ann'', Some ''Skip'', Some ''2020-03-01'', Some ''2021-03-01''],
      [Some ''2'', Some ''Bob'', Some ''skip'', Some ''2020-03-02'', Some ''2021-03-02''],
      [Some ''3'', Some ''Cy'', Some ''ABC'', Some ''2020-03-03'', Some ''2021-03-03''],
      [Some ''3'', Some ''Cy'', Some ''ABC'', Some ''2020-03-03'', Some ''2021-03-03'']]"
  let ?ext = "\<lambda>c::cell. Inr c :: error + cell"
  have ok: "list_all (lp_cleanable ?ext format_from_timestamp) ?raw"
    by (simp add: lp_cleanable_def returns_string_def format_from_timestamp_def)
  then have all: "\<forall>r \<in> set ?raw. lp_cleanable ?ext format_from_timestamp r"
    by (simp only: list_all_iff)
  have val: "filter (\<lambda>c. c ! 2 \<noteq> Some ''Skip'') (map (lp_cleaned ?ext format_from_timestamp) ?raw) =
     [[Some ''2'', Some ''Bob'', Some ''skip'', Some ''02/03/2020'', Some ''02/03/2021''],
      [Some ''3'', Some ''Cy'', Some ''ABC'', Some ''03/03/2020'', Some ''03/03/2021''],
      [Some ''3'', Some ''Cy'', Some ''ABC'', Some ''03/03/2020'', Some ''03/03/2021'']]"
    by code_simp
  from clean_lp_data_drops_skip [of ?raw ?ext format_from_timestamp] all
  have "clean_lp_data ?ext format_from_timestamp ?raw =
      Inr (filter (\<lambda>c. c ! 2 \<noteq> Some ''Skip'') (map (lp_cleaned ?ext format_from_timestamp) ?raw))"
    by (rule conjunct1 [THEN mp])
  then have res: "clean_lp_data ?ext format_from_timestamp ?raw =
     Inr [[Some ''2'', Some ''Bob'', Some ''skip'', Some ''02/03/2020'', Some ''02/03/2021''],
          [Some ''3'', Some ''Cy'', Some ''ABC'', Some ''03/03/2020'', Some ''03/03/2021''],
          [Some ''3'', Some ''Cy'', Some ''ABC'', Some ''03/03/2020'', Some ''03/03/2021'']]"
    by (simp only: val)
  have bad: "\<exists>r \<in> set [[Some ''4'', Some ''Di'']]. \<not> lp_cleanable ?ext format_from_timestamp r"
    by (simp add: lp_cleanable_def)
  from clean_lp_data_drops_skip [of "[[Some ''4'', Some ''Di'']]" ?ext format_from_timestamp] bad
  have raises: "\<exists>e. clean_lp_data ?ext format_from_timestamp [[Some ''4'', Some ''Di'']] = Inl e"
    by (rule conjunct2 [THEN mp])
  from ok res raises show ?thesis by (intro conjI)
qed

text \<open>
  C2: the end-to-end scenario. The Source A start date 1/3/2020 has 8 characters, so
  \<open>clean_sd_data\<close> leaves it as it is; the Source B timestamp is cleaned to 01/03/2020;
  \<open>compare_dates\<close> on the two cleaned tables reports student 1001 as a mismatch.
\<close>

theorem end_to_end_start_date_mismatch:
  "clean_sd_data
     [[Some ''1001'', Some ''ABC-DE-FGH'', Some ''T'', Some ''1/3/2020'', Some ''1/03/2021'']] =
     Inr [[Some ''1001'', Some ''ABC-DE-FGH'', Some ''1/3/2020'', Some ''01/03/2021'']] \<and>
   clean_lp_data (\<lambda>c. Inr c) format_from_timestamp
     [[Some ''1001'', Some ''Ann'', Some ''ABC-DE-FGH'', Some ''2020-03-01T00:00:00'',
       Some ''2021-03-01T00:00:00'']] =
     Inr [[Some ''1001'', Some ''Ann'', Some ''ABC-DE-FGH'', Some ''01/03/2020'',
           Some ''01/03/2021'']] \<and>
   compare_dates
     (DataFrame [[Some ''1001'', Some ''Ann'', Some ''ABC-DE-FGH'', Some ''01/03/2020'',
                  Some ''01/03/2021'']]
        [''StudentID'', ''Student'', ''Course'', ''Start Date'', ''Expiry Date''])
     (DataFrame [[Some ''1001'', Some ''ABC-DE-FGH'', Some ''1/3/2020'', Some ''01/03/2021'']]
        [''StudentID'', ''Course'', ''Start Date'', ''Expiry Date''])
     ''StudentID'' ''Start Date''
     [''StudentID'', ''Student'', ''Course_1'', ''Start Date_1'', ''Start Date_2''] =
     Inr (DataFrame [[Some ''1001'', Some ''Ann'', Some ''ABC-DE-FGH'', Some ''01/03/2020'',
                      Some ''1/3/2020'']]
        [''StudentID'', ''Student'', ''Course_1'', ''Start Date_1'', ''Start Date_2''])"
  by code_simp

section \<open>Properties of the top-level run\<close>

lemma load_data_no_warnings:
  assumes "load_data rows source = Inr l"
  shows "to_add l = False \<and> warnings_to_add l = []"
  using assms unfolding load_data_def Let_def
  by (elim bind_err_InrE) auto

lemma process_enrolment_dates_warning_log:
  assumes "process_enrolment_dates ext dcd lp_file sd_file = Inr out"
  shows "warning_log out = ([run_header], False)"
  using assms unfolding process_enrolment_dates_def Let_def
  by (elim bind_err_InrE) auto

text \<open>
  C3: a run on a Source A file whose row lacks the Tutor. The validator collects the
  warning and returns it with the flag true, \<open>load_data\<close> drops that result and returns
  the flag false with an empty list, and the run calls the warning-log sink with the
  header alone and the flag false.
\<close>

theorem warnings_never_reach_warning_log:
  "map_sum id (\<lambda>c. (has_warnings c, warnings c))
     (check_edsd [[Some ''1001'', Some ''ABC-DE-FGH'', Some [], Some ''1/03/2020'', Some ''1/03/2021'']]) =
     Inr (True, [edsd_header, ''Tutor is missing for student with Student ID 1001'']) \<and>
   map_sum id (\<lambda>l. (to_add l, warnings_to_add l))
     (load_data [[Some ''1001'', Some ''ABC-DE-FGH'', Some [], Some ''1/03/2020'', Some ''1/03/2021'']]
        ''edsd'') = Inr (False, []) \<and>
   map_sum id warning_log
     (process_enrolment_dates (\<lambda>c. Inr c) format_from_timestamp
        [[Some ''1001'', Some [], Some ''ABC-DE-FGH'', Some ''2020-03-01T00:00:00'',
          Some ''2021-03-01T00:00:00'']]
        [[Some ''1001'', Some ''ABC-DE-FGH'', Some [], Some ''1/03/2020'', Some ''1/03/2021'']]) =
     Inr ([run_header], False)"
  by code_simp

section \<open>Properties of the reconciliation engine\<close>

lemma index_of_SomeD: "index_of xs x = Some i \<Longrightarrow> i < length xs \<and> xs ! i = x"
  by (induction xs arbitrary: i) (auto split: if_splits)

lemma index_of_mem: "x \<in> set xs \<Longrightarrow> \<exists>i. index_of xs x = Some i"
  by (induction xs) auto

lemma index_of_append_notin:
  "x \<notin> set xs \<Longrightarrow> index_of (xs @ ys) x = map_option (\<lambda>i. length xs + i) (index_of ys x)"
proof (induction xs)
  case Nil
  show ?case by (cases "index_of ys x") simp_all
next
  case (Cons a xs)
  then show ?case by (cases "index_of ys x") simp_all
qed

lemma key_index_InrD: "key_index cols label = Inr k \<Longrightarrow> index_of cols label = Some k"
  by (auto simp: key_index_def split: option.splits if_splits)

lemma select_notin: "label \<notin> set cols \<Longrightarrow> select cols r label = []"
proof -
  assume "label \<notin> set cols"
  then have "\<forall>p \<in> set (zip cols r). fst p \<noteq> label"
    by (auto dest: set_zip_leftD)
  then have "filter (\<lambda>p. fst p = label) (zip cols r) = []"
    by (simp add: filter_empty_conv)
  then show ?thesis by (simp add: select_def)
qed

lemma select_Cons:
  "select (c # cs) (x # xs) label = (if c = label then x # select cs xs label else select cs xs label)"
  by (simp add: select_def)

lemma select_distinct:
  assumes "distinct cols" and "index_of cols label = Some i" and "length r = length cols"
  shows "select cols r label = [r ! i]"
  using assms
proof (induction cols arbitrary: r i)
  case Nil
  then show ?case by simp
next
  case (Cons c cs)
  from Cons.prems(3) obtain x xs where r: "r = x # xs" and len: "length xs = length cs"
    by (cases r) simp_all
  show ?case
  proof (cases "label = c")
    case True
    with Cons.prems(2) have i: "i = 0" by simp
    from True Cons.prems(1) have "label \<notin> set cs" by simp
    from select_notin [OF this] True i r show ?thesis by (simp add: select_Cons)
  next
    case False
    with Cons.prems(2) obtain j where j: "index_of cs label = Some j" and i: "i = Suc j"
      by (cases "index_of cs label") simp_all
    from Cons.prems(1) have "distinct cs" by simp
    from Cons.IH [OF this j len] False i r show ?thesis by (simp add: select_Cons)
  qed
qed

lemma lookup_ok:
  assumes "label \<in> set cols" and "distinct cols" and "length r = length cols"
  shows "lookup cols r label = Inr [cell_at cols r label]"
proof -
  from index_of_mem [OF assms(1)] obtain i where i: "index_of cols label = Some i" by blast
  from select_distinct [OF assms(2) i assms(3)] i assms(1) show ?thesis
    by (simp add: lookup_def cell_at_def)
qed

lemma project_ok:
  assumes "set hs \<subseteq> set cols" and "distinct cols" and "length r = length cols"
  shows "project cols r hs = Inr (map (cell_at cols r) hs)"
  using assms(1)
proof (induction hs)
  case Nil
  show ?case by simp
next
  case (Cons h hs)
  from Cons.prems have h: "h \<in> set cols" and rest: "set hs \<subseteq> set cols" by simp_all
  from lookup_ok [OF h assms(2,3)] Cons.IH [OF rest] show ?case by simp
qed

lemma filter_eq_distinct:
  assumes "distinct cols" and "h \<in> set cols"
  shows "filter (\<lambda>c. c = h) cols = [h]"
  using assms
proof (induction cols)
  case Nil
  then show ?case by simp
next
  case (Cons c cs)
  show ?case
  proof (cases "c = h")
    case True
    with Cons.prems(1) have "h \<notin> set cs" by simp
    then have "filter (\<lambda>c. c = h) cs = []" by (auto simp: filter_empty_conv)
    with True show ?thesis by simp
  next
    case False
    with Cons.prems have "distinct cs" and "h \<in> set cs" by simp_all
    from Cons.IH [OF this] False show ?thesis by simp
  qed
qed

lemma series_index_distinct:
  assumes "distinct cols" and "set hs \<subseteq> set cols"
  shows "series_index cols hs = hs"
  using assms(2)
proof (induction hs)
  case Nil
  show ?case by (simp add: series_index_def)
next
  case (Cons h hs)
  from Cons.prems have h: "h \<in> set cols" and rest: "set hs \<subseteq> set cols" by simp_all
  from Cons.IH [OF rest] filter_eq_distinct [OF assms(1) h] show ?case
    by (simp add: series_index_def)
qed

lemma compare_loop_ok:
  assumes "col_name @ ''_1'' \<in> set cols" and "col_name @ ''_2'' \<in> set cols"
    and "set headings \<subseteq> set cols" and "distinct cols"
    and "\<forall>r \<in> set rows. length r = length cols"
  shows "compare_loop cols col_name headings rows acc =
    Inr (acc @ map (\<lambda>r. map (cell_at cols r) headings) (filter (dates_differ cols col_name) rows))"
  using assms(5)
proof (induction rows arbitrary: acc)
  case Nil
  show ?case by simp
next
  case (Cons r rows)
  from Cons.prems have len: "length r = length cols" by simp
  from Cons.prems have rest: "\<forall>r \<in> set rows. length r = length cols" by simp
  note IH = Cons.IH [OF rest]
  show ?case
    by (simp add: lookup_ok [OF assms(1) assms(4) len] lookup_ok [OF assms(2) assms(4) len]
        project_ok [OF assms(3) assms(4) len] IH dates_differ_def)
qed

lemma merge_InrD:
  assumes "merge df_1 df_2 common = Inr combined"
  shows "\<exists>kl kr. index_of (columns df_1) common = Some kl \<and>
    index_of (columns df_2) common = Some kr \<and>
    columns combined = suffix_cols common (columns df_2) ''_1'' (columns df_1) @
                       suffix_cols common (columns df_1) ''_2'' (drop_at kr (columns df_2)) \<and>
    records combined = concat (map (join_row kl kr (length (columns df_2) - 1) (records df_2))
                                 (records df_1))"
proof -
  from assms obtain kr kl where kr: "key_index (columns df_2) common = Inr kr"
    and kl: "key_index (columns df_1) common = Inr kl"
    and c: "Inr \<lparr>columns = suffix_cols common (columns df_2) ''_1'' (columns df_1) @
                       suffix_cols common (columns df_1) ''_2'' (drop_at kr (columns df_2)),
            records = concat (map (join_row kl kr (length (columns df_2) - 1) (records df_2))
                                (records df_1))\<rparr> = (Inr combined :: error + dataframe)"
    unfolding merge_def by (elim bind_err_InrE)
  from c have "columns combined = suffix_cols common (columns df_2) ''_1'' (columns df_1) @
                       suffix_cols common (columns df_1) ''_2'' (drop_at kr (columns df_2))"
    and "records combined = concat (map (join_row kl kr (length (columns df_2) - 1) (records df_2))
                                 (records df_1))"
    by auto
  with key_index_InrD [OF kl] key_index_InrD [OF kr] show ?thesis by blast
qed

lemma length_drop_at: "k < length xs \<Longrightarrow> length (drop_at k xs) = length xs - 1"
  by (simp add: drop_at_def)

lemma length_suffix_cols [simp]: "length (suffix_cols c other sfx cols) = length cols"
  by (simp add: suffix_cols_def)

lemma join_row_length:
  assumes "length l = n1" and "\<forall>r \<in> set rights. length r = n2" and "kr < n2"
  shows "\<forall>j \<in> set (join_row kl kr (n2 - 1) rights l). length j = n1 + (n2 - 1)"
  using assms by (auto simp: join_row_def Let_def length_drop_at)

lemma join_row_matches:
  assumes "index_of (columns df_1) common = Some kl" and "index_of (columns df_2) common = Some kr"
  shows "join_row kl kr w (records df_2) l =
    (if matches df_1 df_2 common l = [] then [l @ replicate w NaN]
     else map (\<lambda>r. l @ drop_at kr r) (matches df_1 df_2 common l))"
  using assms by (simp add: join_row_def matches_def cell_at_def Let_def)

lemma join_row_nonempty: "join_row kl kr w rights l \<noteq> []"
  by (simp add: join_row_def Let_def)

lemma join_row_prefix: "\<forall>j \<in> set (join_row kl kr w rights l). take (length l) j = l"
  by (auto simp: join_row_def Let_def)

lemma length_join_row:
  assumes "index_of (columns df_1) common = Some kl" and "index_of (columns df_2) common = Some kr"
  shows "length (join_row kl kr w (records df_2) l) = max 1 (length (matches df_1 df_2 common l))"
  by (cases "matches df_1 df_2 common l") (simp_all add: join_row_matches [OF assms])

lemma mem_drop_at:
  assumes "x \<in> set xs" and "k < length xs" and "xs ! k \<noteq> x"
  shows "x \<in> set (drop_at k xs)"
proof -
  from assms(2) have "xs = take k xs @ xs ! k # drop (Suc k) xs" by (rule id_take_nth_drop)
  then have "set xs = set (take k xs) \<union> {xs ! k} \<union> set (drop (Suc k) xs)"
    by (metis Un_insert_right list.simps(15) set_append sup_bot.right_neutral Un_assoc insert_is_Un)
  with assms(1,3) show ?thesis by (auto simp: drop_at_def)
qed

lemma suffixed_mem:
  assumes "c \<in> set cols" and "c \<noteq> common" and "c \<in> set other"
  shows "c @ sfx \<in> set (suffix_cols common other sfx cols)"
  using assms by (auto simp: suffix_cols_def image_iff intro!: bexI [of _ c])

lemma ne_cell_NaN_right [simp]: "ne_cell c NaN"
  by (simp add: ne_cell_def)

lemma ne_cell_NaN_left [simp]: "ne_cell NaN c"
  by (simp add: ne_cell_def)

lemma ne_cell_Text [simp]: "ne_cell (Text a) (Text b) = (a \<noteq> b)"
  by (simp add: ne_cell_def)

lemma ne_cell_PyNone [simp]:
  "ne_cell PyNone (Text a)" "ne_cell (Text a) PyNone" "\<not> ne_cell PyNone PyNone"
  by (simp_all add: ne_cell_def)

lemma merge_wf:
  assumes m: "merge df_1 df_2 common = Inr combined"
    and wf1: "wf_df df_1" and wf2: "wf_df df_2"
  shows "\<forall>j \<in> set (records combined). length j = length (columns combined)"
proof -
  from merge_InrD [OF m] obtain kl kr where
    kr: "index_of (columns df_2) common = Some kr" and
    cols: "columns combined = suffix_cols common (columns df_2) ''_1'' (columns df_1) @
             suffix_cols common (columns df_1) ''_2'' (drop_at kr (columns df_2))" and
    recs: "records combined = concat (map (join_row kl kr (length (columns df_2) - 1) (records df_2))
             (records df_1))"
    by blast
  from index_of_SomeD [OF kr] have krlt: "kr < length (columns df_2)" by simp
  from wf2 have r2: "\<forall>r \<in> set (records df_2). length r = length (columns df_2)"
    by (simp add: wf_df_def list_all_iff)
  have len: "length (columns combined) = length (columns df_1) + (length (columns df_2) - 1)"
    by (simp add: cols length_drop_at [OF krlt])
  show ?thesis
  proof
    fix j assume "j \<in> set (records combined)"
    then obtain l where l: "l \<in> set (records df_1)"
      and j: "j \<in> set (join_row kl kr (length (columns df_2) - 1) (records df_2) l)"
      by (auto simp: recs)
    from wf1 l have "length l = length (columns df_1)"
      by (simp add: wf_df_def list_all_iff)
    from join_row_length [OF this r2 krlt] j len show "length j = length (columns combined)"
      by simp
  qed
qed

lemma merge_date_columns:
  assumes m: "merge df_1 df_2 common = Inr combined"
    and c1: "col_name \<in> set (columns df_1)" and c2: "col_name \<in> set (columns df_2)"
    and ne: "col_name \<noteq> common"
  shows "col_name @ ''_1'' \<in> set (columns combined) \<and> col_name @ ''_2'' \<in> set (columns combined)"
proof -
  from merge_InrD [OF m] obtain kl kr where
    kr: "index_of (columns df_2) common = Some kr" and
    cols: "columns combined = suffix_cols common (columns df_2) ''_1'' (columns df_1) @
             suffix_cols common (columns df_1) ''_2'' (drop_at kr (columns df_2))"
    by blast
  from index_of_SomeD [OF kr] have krlt: "kr < length (columns df_2)"
    and kreq: "columns df_2 ! kr = common" by simp_all
  from ne kreq have "columns df_2 ! kr \<noteq> col_name" by simp
  from mem_drop_at [OF c2 krlt this] have "col_name \<in> set (drop_at kr (columns df_2))" .
  from suffixed_mem [OF this ne c1] suffixed_mem [OF c1 ne c2] show ?thesis
    by (simp add: cols)
qed

lemma merge_left_only:
  assumes m: "merge df_1 df_2 common = Inr combined"
    and wf1: "wf_df df_1"
    and c1: "col_name \<in> set (columns df_1)" and c2: "col_name \<in> set (columns df_2)"
    and ne: "col_name \<noteq> common"
    and dist: "distinct (columns combined)"
    and l: "l \<in> set (records df_1)" and nom: "matches df_1 df_2 common l = []"
  shows "l @ replicate (length (columns df_2) - 1) NaN \<in> set (records combined) \<and>
    cell_at (columns combined) (l @ replicate (length (columns df_2) - 1) NaN)
      (col_name @ ''_2'') = NaN"
proof -
  let ?A = "suffix_cols common (columns df_2) ''_1'' (columns df_1)"
  from merge_InrD [OF m] obtain kl kr where
    kl: "index_of (columns df_1) common = Some kl" and
    kr: "index_of (columns df_2) common = Some kr" and
    cols: "columns combined = ?A @
             suffix_cols common (columns df_1) ''_2'' (drop_at kr (columns df_2))" and
    recs: "records combined = concat (map (join_row kl kr (length (columns df_2) - 1) (records df_2))
             (records df_1))"
    by blast
  let ?B = "suffix_cols common (columns df_1) ''_2'' (drop_at kr (columns df_2))"
  let ?w = "length (columns df_2) - 1"
  from index_of_SomeD [OF kr] have krlt: "kr < length (columns df_2)"
    and kreq: "columns df_2 ! kr = common" by simp_all
  from ne kreq have "columns df_2 ! kr \<noteq> col_name" by simp
  from mem_drop_at [OF c2 krlt this] have "col_name \<in> set (drop_at kr (columns df_2))" .
  from suffixed_mem [OF this ne c1] have inB: "col_name @ ''_2'' \<in> set ?B" .
  from dist cols have "set ?A \<inter> set ?B = {}" by simp
  with inB have notA: "col_name @ ''_2'' \<notin> set ?A" by blast
  from index_of_mem [OF inB] obtain i where i: "index_of ?B (col_name @ ''_2'') = Some i" by blast
  from index_of_SomeD [OF i] have "i < length ?B" by simp
  then have ilt: "i < ?w" by (simp add: length_drop_at [OF krlt])
  from wf1 l have ll: "length l = length ?A" by (simp add: wf_df_def list_all_iff)
  from index_of_append_notin [OF notA, of ?B] i
  have "index_of (columns combined) (col_name @ ''_2'') = Some (length ?A + i)"
    by (simp add: cols)
  then have "cell_at (columns combined) (l @ replicate ?w NaN) (col_name @ ''_2'') =
      (l @ replicate ?w NaN) ! (length l + i)"
    by (simp add: cell_at_def ll)
  also have "\<dots> = NaN" using ilt by (simp add: nth_append)
  finally have cell: "cell_at (columns combined) (l @ replicate ?w NaN) (col_name @ ''_2'') = NaN" .
  from nom have "join_row kl kr ?w (records df_2) l = [l @ replicate ?w NaN]"
    by (simp add: join_row_matches [OF kl kr])
  with l have "l @ replicate ?w NaN \<in> set (records combined)"
    by (auto simp: recs intro!: bexI [of _ l])
  with cell show ?thesis by simp
qed

lemma merge_every_left_row:
  assumes m: "merge df_1 df_2 common = Inr combined" and l: "l \<in> set (records df_1)"
  shows "\<exists>j \<in> set (records combined). take (length l) j = l"
proof -
  from merge_InrD [OF m] obtain kl kr where
    recs: "records combined = concat (map (join_row kl kr (length (columns df_2) - 1) (records df_2))
             (records df_1))"
    by blast
  let ?js = "join_row kl kr (length (columns df_2) - 1) (records df_2) l"
  from join_row_nonempty [of kl kr _ _ l] obtain j where j: "j \<in> set ?js"
    by (cases ?js) auto
  with join_row_prefix [of kl kr _ _ l] have "take (length l) j = l" by blast
  moreover from j l have "j \<in> set (records combined)" by (auto simp: recs)
  ultimately show ?thesis by blast
qed

lemma merge_fan_out:
  assumes m: "merge df_1 df_2 common = Inr combined"
  shows "length (records combined) =
    sum_list (map (\<lambda>l. max 1 (length (matches df_1 df_2 common l))) (records df_1))"
proof -
  from merge_InrD [OF m] obtain kl kr where
    kl: "index_of (columns df_1) common = Some kl" and
    kr: "index_of (columns df_2) common = Some kr" and
    recs: "records combined = concat (map (join_row kl kr (length (columns df_2) - 1) (records df_2))
             (records df_1))"
    by blast
  show ?thesis
    by (simp add: recs length_concat comp_def length_join_row [OF kl kr])
qed

lemma compare_dates_ok:
  assumes m: "merge df_1 df_2 common = Inr combined"
    and wf1: "wf_df df_1" and wf2: "wf_df df_2"
    and c1: "col_name \<in> set (columns df_1)" and c2: "col_name \<in> set (columns df_2)"
    and ne: "col_name \<noteq> common"
    and dist: "distinct (columns combined)"
    and hs: "set headings \<subseteq> set (columns combined)" and dh: "distinct headings"
  shows "compare_dates df_1 df_2 common col_name headings =
    Inr \<lparr>columns = headings,
         records = map (\<lambda>r. map (cell_at (columns combined) r) headings)
           (filter (dates_differ (columns combined) col_name) (records combined))\<rparr>"
proof -
  from merge_date_columns [OF m c1 c2 ne]
  have d1: "col_name @ ''_1'' \<in> set (columns combined)"
    and d2: "col_name @ ''_2'' \<in> set (columns combined)" by simp_all
  from series_index_distinct [OF dist hs] dh
  have "distinct (series_index (columns combined) headings)" by simp
  with compare_loop_ok [OF d1 d2 hs dist merge_wf [OF m wf1 wf2], of "[]"] m
  show ?thesis by (simp add: compare_dates_def)
qed

text \<open>
  C4: \<open>compare_dates\<close> on two well-formed tables that both have the join key and the
  date column, with distinct joined labels and distinct output columns among them. In the
  left join every row of the left table appears at least once, a left row gives one joined
  row per right row with its key and one row when there is none, and then the right-hand
  values are the null marker NaN. The result has the output columns as its labels and
  holds exactly the joined rows whose two dates differ, projected to the output columns,
  in the order of the join. Two strings differ when they are unequal, and a null marker
  differs from every string. When no date pair differs the result is empty; a left row
  without a match is in the result, with a null right-hand date.
\<close>

theorem compare_dates_left_join:
  assumes m: "merge df_1 df_2 common = Inr combined"
    and wf1: "wf_df df_1" and wf2: "wf_df df_2"
    and c1: "col_name \<in> set (columns df_1)" and c2: "col_name \<in> set (columns df_2)"
    and ne: "col_name \<noteq> common"
    and dist: "distinct (columns combined)"
    and hs: "set headings \<subseteq> set (columns combined)" and dh: "distinct headings"
  shows
    "(\<forall>l \<in> set (records df_1). \<exists>j \<in> set (records combined). take (length l) j = l) \<and>
     length (records combined) =
       sum_list (map (\<lambda>l. max 1 (length (matches df_1 df_2 common l))) (records df_1)) \<and>
     (\<exists>identified.
        compare_dates df_1 df_2 common col_name headings = Inr identified \<and>
        columns identified = headings \<and>
        records identified =
          map (\<lambda>r. map (cell_at (columns combined) r) headings)
            (filter (dates_differ (columns combined) col_name) (records combined)) \<and>
        ((\<forall>j \<in> set (records combined). \<not> dates_differ (columns combined) col_name j) \<longrightarrow>
           records identified = []) \<and>
        (\<forall>l \<in> set (records df_1). matches df_1 df_2 common l = [] \<longrightarrow>
           l @ replicate (length (columns df_2) - 1) NaN \<in> set (records combined) \<and>
           cell_at (columns combined) (l @ replicate (length (columns df_2) - 1) NaN)
             (col_name @ ''_2'') = NaN \<and>
           map (cell_at (columns combined) (l @ replicate (length (columns df_2) - 1) NaN))
             headings \<in> set (records identified))) \<and>
     (\<forall>a b. ne_cell (Text a) (Text b) = (a \<noteq> b)) \<and>
     (\<forall>a. ne_cell PyNone (Text a) \<and> ne_cell (Text a) PyNone) \<and>
     (\<forall>c. ne_cell NaN c \<and> ne_cell c NaN)"
proof (intro conjI)
  show "\<forall>l \<in> set (records df_1). \<exists>j \<in> set (records combined). take (length l) j = l"
    using merge_every_left_row [OF m] by blast
next
  show "length (records combined) =
      sum_list (map (\<lambda>l. max 1 (length (matches df_1 df_2 common l))) (records df_1))"
    by (rule merge_fan_out [OF m])
next
  let ?cols = "columns combined"
  let ?rows = "map (\<lambda>r. map (cell_at ?cols r) headings)
      (filter (dates_differ ?cols col_name) (records combined))"
  let ?w = "length (columns df_2) - 1"
  let ?res = "\<lparr>columns = headings, records = ?rows\<rparr>"
  have eq: "compare_dates df_1 df_2 common col_name headings = Inr ?res"
    by (rule compare_dates_ok [OF m wf1 wf2 c1 c2 ne dist hs dh])
  have empty: "(\<forall>j \<in> set (records combined). \<not> dates_differ ?cols col_name j) \<longrightarrow> ?rows = []"
    by (simp add: filter_empty_conv)
  have only: "\<forall>l \<in> set (records df_1). matches df_1 df_2 common l = [] \<longrightarrow>
      l @ replicate ?w NaN \<in> set (records combined) \<and>
      cell_at ?cols (l @ replicate ?w NaN) (col_name @ ''_2'') = NaN \<and>
      map (cell_at ?cols (l @ replicate ?w NaN)) headings \<in> set ?rows"
  proof (intro ballI impI)
    fix l assume l: "l \<in> set (records df_1)" and nom: "matches df_1 df_2 common l = []"
    from merge_left_only [OF m wf1 c1 c2 ne dist l nom]
    have mem: "l @ replicate ?w NaN \<in> set (records combined)"
      and cell: "cell_at ?cols (l @ replicate ?w NaN) (col_name @ ''_2'') = NaN"
      by simp_all
    from cell have "dates_differ ?cols col_name (l @ replicate ?w NaN)"
      by (simp add: dates_differ_def)
    with mem have "map (cell_at ?cols (l @ replicate ?w NaN)) headings \<in> set ?rows"
      by (auto intro!: image_eqI [of _ _ "l @ replicate ?w NaN"])
    with mem cell show "l @ replicate ?w NaN \<in> set (records combined) \<and>
      cell_at ?cols (l @ replicate ?w NaN) (col_name @ ''_2'') = NaN \<and>
      map (cell_at ?cols (l @ replicate ?w NaN)) headings \<in> set ?rows"
      by simp
  qed
  show "\<exists>identified.
        compare_dates df_1 df_2 common col_name headings = Inr identified \<and>
        columns identified = headings \<and>
        records identified = ?rows \<and>
        ((\<forall>j \<in> set (records combined). \<not> dates_differ ?cols col_name j) \<longrightarrow>
           records identified = []) \<and>
        (\<forall>l \<in> set (records df_1). matches df_1 df_2 common l = [] \<longrightarrow>
           l @ replicate ?w NaN \<in> set (records combined) \<and>
           cell_at ?cols (l @ replicate ?w NaN) (col_name @ ''_2'') = NaN \<and>
           map (cell_at ?cols (l @ replicate ?w NaN)) headings \<in> set (records identified))"
  proof (intro exI conjI)
    show "compare_dates df_1 df_2 common col_name headings = Inr ?res"
      by (rule eq)
    show "columns ?res = headings" by simp
    show "records ?res = ?rows" by simp
    show "(\<forall>j \<in> set (records combined). \<not> dates_differ ?cols col_name j) \<longrightarrow>
        records ?res = []"
      using empty by simp
    show "\<forall>l \<in> set (records df_1). matches df_1 df_2 common l = [] \<longrightarrow>
        l @ replicate ?w NaN \<in> set (records combined) \<and>
        cell_at ?cols (l @ replicate ?w NaN) (col_name @ ''_2'') = NaN \<and>
        map (cell_at ?cols (l @ replicate ?w NaN)) headings \<in> set (records ?res)"
      using only by simp
  qed
next
  show "\<forall>a b. ne_cell (Text a) (Text b) = (a \<noteq> b)" by simp
next
  show "\<forall>a. ne_cell PyNone (Text a) \<and> ne_cell (Text a) PyNone" by simp
next
  show "\<forall>c. ne_cell NaN c \<and> ne_cell c NaN" by simp
qed

theorem compare_dates_left_join_witness:
  "merge
     (DataFrame [[Some ''1'', Some ''01/03/2020''], [Some ''2'', Some ''02/03/2020''],
                 [Some ''3'', Some ''03/03/2020'']] [''StudentID'', ''Start Date''])
     (DataFrame [[Some ''01/03/2020'', Some ''1''], [Some ''9/03/2020'', Some ''1''],
                 [Some ''02/03/2020'', Some ''2'']] [''Start Date'', ''StudentID''])
     ''StudentID'' =
     Inr \<lparr>columns = [''StudentID'', ''Start Date_1'', ''Start Date_2''],
          records =
            [[Text ''1'', Text ''01/03/2020'', Text ''01/03/2020''],
             [Text ''1'', Text ''01/03/2020'', Text ''9/03/2020''],
             [Text ''2'', Text ''02/03/2020'', Text ''02/03/2020''],
             [Text ''3'', Text ''03/03/2020'', NaN]]\<rparr> \<and>
   compare_dates
     (DataFrame [[Some ''1'', Some ''01/03/2020''], [Some ''2'', Some ''02/03/2020''],
                 [Some ''3'', Some ''03/03/2020'']] [''StudentID'', ''Start Date''])
     (DataFrame [[Some ''01/03/2020'', Some ''1''], [Some ''9/03/2020'', Some ''1''],
                 [Some ''02/03/2020'', Some ''2'']] [''Start Date'', ''StudentID''])
     ''StudentID'' ''Start Date'' [''StudentID'', ''Start Date_1'', ''Start Date_2''] =
     Inr \<lparr>columns = [''StudentID'', ''Start Date_1'', ''Start Date_2''],
          records =
            [[Text ''1'', Text ''01/03/2020'', Text ''9/03/2020''],
             [Text ''3'', Text ''03/03/2020'', NaN]]\<rparr> \<and>
   compare_dates
     (DataFrame [[Some ''1'', None]] [''StudentID'', ''Start Date''])
     (DataFrame [[None, Some ''1'']] [''Start Date'', ''StudentID''])
     ''StudentID'' ''Start Date'' [''StudentID'', ''Start Date_1'', ''Start Date_2''] =
     Inr \<lparr>columns = [''StudentID'', ''Start Date_1'', ''Start Date_2''], records = []\<rparr>"
proof -
  let ?df1 = "DataFrame [[Some ''1'', Some ''01/03/2020''], [Some ''2'', Some ''02/03/2020''],
                 [Some ''3'', Some ''03/03/2020'']] [''StudentID'', ''Start Date'']"
  let ?df2 = "DataFrame [[Some ''01/03/2020'', Some ''1''], [Some ''9/03/2020'', Some ''1''],
                 [Some ''02/03/2020'', Some ''2'']] [''Start Date'', ''StudentID'']"
  let ?hs = "[''StudentID'', ''Start Date_1'', ''Start Date_2'']"
  let ?comb = "\<lparr>columns = ?hs,
          records =
            [[Text ''1'', Text ''01/03/2020'', Text ''01/03/2020''],
             [Text ''1'', Text ''01/03/2020'', Text ''9/03/2020''],
             [Text ''2'', Text ''02/03/2020'', Text ''02/03/2020''],
             [Text ''3'', Text ''03/03/2020'', NaN]]\<rparr>"
  have m: "merge ?df1 ?df2 ''StudentID'' = Inr ?comb" by code_simp
  have wf1: "wf_df ?df1" by code_simp
  have wf2: "wf_df ?df2" by code_simp
  have c1: "''Start Date'' \<in> set (columns ?df1)" by (simp add: DataFrame_def)
  have c2: "''Start Date'' \<in> set (columns ?df2)" by (simp add: DataFrame_def)
  have ne: "''Start Date'' \<noteq> ''StudentID''" by simp
  have dist: "distinct (columns ?comb)" by simp
  have hs: "set ?hs \<subseteq> set (columns ?comb)" by simp
  have dh: "distinct ?hs" by simp
  have val: "map (\<lambda>r. map (cell_at (columns ?comb) r) ?hs)
      (filter (dates_differ (columns ?comb) ''Start Date'') (records ?comb)) =
      [[Text ''1'', Text ''01/03/2020'', Text ''9/03/2020''],
       [Text ''3'', Text ''03/03/2020'', NaN]]"
    by code_simp
  from compare_dates_left_join [OF m wf1 wf2 c1 c2 ne dist hs dh]
  obtain identified where
    eq: "compare_dates ?df1 ?df2 ''StudentID'' ''Start Date'' ?hs = Inr identified" and
    cols: "columns identified = ?hs" and
    recs: "records identified = map (\<lambda>r. map (cell_at (columns ?comb) r) ?hs)
      (filter (dates_differ (columns ?comb) ''Start Date'') (records ?comb))"
    by (elim conjE exE)
  from cols recs have "identified = \<lparr>columns = ?hs, records =
       [[Text ''1'', Text ''01/03/2020'', Text ''9/03/2020''],
        [Text ''3'', Text ''03/03/2020'', NaN]]\<rparr>"
    by (simp only: val) simp
  with eq have first: "compare_dates ?df1 ?df2 ''StudentID'' ''Start Date'' ?hs =
      Inr \<lparr>columns = ?hs, records =
       [[Text ''1'', Text ''01/03/2020'', Text ''9/03/2020''],
        [Text ''3'', Text ''03/03/2020'', NaN]]\<rparr>"
    by simp
  let ?e1 = "DataFrame [[Some ''1'', None]] [''StudentID'', ''Start Date'']"
  let ?e2 = "DataFrame [[None, Some ''1'']] [''Start Date'', ''StudentID'']"
  let ?ec = "\<lparr>columns = ?hs, records = [[Text ''1'', PyNone, PyNone]]\<rparr>"
  have em: "merge ?e1 ?e2 ''StudentID'' = Inr ?ec" by code_simp
  have ewf1: "wf_df ?e1" by code_simp
  have ewf2: "wf_df ?e2" by code_simp
  have ec1: "''Start Date'' \<in> set (columns ?e1)" by (simp add: DataFrame_def)
  have ec2: "''Start Date'' \<in> set (columns ?e2)" by (simp add: DataFrame_def)
  have edist: "distinct (columns ?ec)" by simp
  have ehs: "set ?hs \<subseteq> set (columns ?ec)" by simp
  have same: "\<forall>j \<in> set (records ?ec). \<not> dates_differ (columns ?ec) ''Start Date'' j"
    by code_simp
  from compare_dates_left_join [OF em ewf1 ewf2 ec1 ec2 ne edist ehs dh]
  obtain none where
    eeq: "compare_dates ?e1 ?e2 ''StudentID'' ''Start Date'' ?hs = Inr none" and
    ecols: "columns none = ?hs" and
    eimp: "(\<forall>j \<in> set (records ?ec). \<not> dates_differ (columns ?ec) ''Start Date'' j) \<longrightarrow>
      records none = []"
    by (elim conjE exE)
  from eimp same have "records none = []" by (rule mp)
  with ecols have "none = \<lparr>columns = ?hs, records = []\<rparr>" by simp
  with eeq have second: "compare_dates ?e1 ?e2 ''StudentID'' ''Start Date'' ?hs =
      Inr \<lparr>columns = ?hs, records = []\<rparr>"
    by simp
  from m first second show ?thesis by (intro conjI)
qed

text \<open>
  Outside that contract the call raises: a heading listed twice, when a row differs; a
  date label that two joined columns carry; a key label that two columns of a table carry;
  a heading or a key that is no label at all.
\<close>

lemma compare_dates_raises:
  "compare_dates
     (DataFrame [[Some ''1'', Some ''01/03/2020'']] [''StudentID'', ''Start Date''])
     (DataFrame [[Some ''1'', Some ''02/03/2020'']] [''StudentID'', ''Start Date''])
     ''StudentID'' ''Start Date'' [''StudentID'', ''StudentID''] = Inl InvalidIndexError \<and>
   compare_dates
     (DataFrame [[Some ''1'', Some ''a'', Some ''b'']] [''StudentID'', ''Start Date'', ''Start Date_1''])
     (DataFrame [[Some ''1'', Some ''c'']] [''StudentID'', ''Start Date''])
     ''StudentID'' ''Start Date'' [''StudentID''] = Inl ValueError \<and>
   compare_dates
     (DataFrame [[Some ''1'', Some ''1'', Some ''a'']] [''StudentID'', ''StudentID'', ''Start Date''])
     (DataFrame [[Some ''1'', Some ''c'']] [''StudentID'', ''Start Date''])
     ''StudentID'' ''Start Date'' [''StudentID''] = Inl ValueError \<and>
   compare_dates
     (DataFrame [[Some ''1'', Some ''01/03/2020'']] [''StudentID'', ''Start Date''])
     (DataFrame [[Some ''1'', Some ''02/03/2020'']] [''StudentID'', ''Start Date''])
     ''StudentID'' ''Start Date'' [''Tutor''] = Inl KeyError \<and>
   compare_dates
     (DataFrame [[Some ''1'', Some ''01/03/2020'']] [''StudentID'', ''Start Date''])
     (DataFrame [[Some ''1'', Some ''02/03/2020'']] [''ID'', ''Start Date''])
     ''StudentID'' ''Start Date'' [''StudentID''] = Inl KeyError"
  by code_simp

end
